theory Spec2Isabelle
  imports Main
begin

section \<open>The template directive engine of the command-line client\<close>

text \<open>
  This theory embeds the template engine of \<^verbatim>\<open>src/cli/index.js\<close>: the four regular
  expressions of \<^verbatim>\<open>getPrompt\<close> and the scanning loop \<^verbatim>\<open>findReplace\<close>, the evaluator
  loop of \<^verbatim>\<open>getPrompt\<close>, the dispatcher \<^verbatim>\<open>runCommand\<close> and the orchestrator
  \<^verbatim>\<open>runPrompt\<close> with its inner \<^verbatim>\<open>runEveries\<close>.

  A JavaScript string is a sequence of UTF-16 code units; the model covers the strings whose
  code units are below 256 and writes them as \<^typ>\<open>string\<close>. Terminal output (the spinner,
  \<^verbatim>\<open>console.log\<close>) is not part of the model.
\<close>

subsection \<open>JavaScript values\<close>

text \<open>
  The values a scope can hold. \<open>JOther\<close> stands for a value of any other JavaScript type
  (a number, an array, a function), given by the two things the engine observes of it: its
  string conversion and its truthiness.
\<close>

datatype jsval =
    JUndefined
  | JNull
  | JBool bool
  | JStr string
  | JObj "(string \<times> jsval) list"
  | JOther string bool

fun to_string :: "jsval \<Rightarrow> string" where
  "to_string JUndefined = ''undefined''"
| "to_string JNull = ''null''"
| "to_string (JBool b) = (if b then ''true'' else ''false'')"
| "to_string (JStr s) = s"
| "to_string (JObj ps) = ''[object Object]''"
| "to_string (JOther s t) = s"

fun truthy :: "jsval \<Rightarrow> bool" where
  "truthy JUndefined = False"
| "truthy JNull = False"
| "truthy (JBool b) = b"
| "truthy (JStr s) = (s \<noteq> [])"
| "truthy (JObj ps) = True"
| "truthy (JOther s t) = t"

text \<open>The JavaScript expression \<^verbatim>\<open>a || b\<close>.\<close>

definition js_or :: "jsval \<Rightarrow> jsval \<Rightarrow> jsval" where
  "js_or a b = (if truthy a then a else b)"

datatype error =
    UnexpectedCommandEnd string
  | TypeError
  | FileNotFound string
  | ProcessExit nat
  | EvalError string
  | SyntaxError
  | Unrepresentable

text \<open>
  A scope is a plain JavaScript object used as a dictionary. The association list holds its
  own properties in the order of their insertion; its prototype is \<^verbatim>\<open>Object.prototype\<close>,
  whose members are found by \<^verbatim>\<open>variables[name]\<close> when the object has no own property of that
  name. \<open>Object_prototype\<close> lists the members that are functions, each by its conversion to a
  string; the accessor \<^verbatim>\<open>__proto__\<close> reads as the prototype object itself.
\<close>

type_synonym scope = "(string \<times> jsval) list"

definition native_function :: "string \<Rightarrow> jsval" where
  "native_function name = JOther (''function '' @ name @ ''() { [native code] }'') True"

definition Object_prototype :: "(string \<times> jsval) list" where
  "Object_prototype =
     [(''constructor'', native_function ''Object''),
      (''__defineGetter__'', native_function ''__defineGetter__''),
      (''__defineSetter__'', native_function ''__defineSetter__''),
      (''hasOwnProperty'', native_function ''hasOwnProperty''),
      (''__lookupGetter__'', native_function ''__lookupGetter__''),
      (''__lookupSetter__'', native_function ''__lookupSetter__''),
      (''isPrototypeOf'', native_function ''isPrototypeOf''),
      (''propertyIsEnumerable'', native_function ''propertyIsEnumerable''),
      (''toString'', native_function ''toString''),
      (''valueOf'', native_function ''valueOf''),
      (''toLocaleString'', native_function ''toLocaleString'')]"

definition inherited :: "string \<Rightarrow> jsval" where
  "inherited name =
     (if name = ''__proto__'' then JObj Object_prototype
      else (case map_of Object_prototype name of None \<Rightarrow> JUndefined | Some v \<Rightarrow> v))"

text \<open>\<^verbatim>\<open>variables[name]\<close>: the own property, or else the inherited member.\<close>

definition scope_get :: "scope \<Rightarrow> string \<Rightarrow> jsval" where
  "scope_get sc name = (case map_of sc name of None \<Rightarrow> inherited name | Some v \<Rightarrow> v)"

text \<open>The assignment to an own property: the value of a key that is there, or a new last key.\<close>

fun own_set :: "string \<Rightarrow> jsval \<Rightarrow> scope \<Rightarrow> scope" where
  "own_set k v [] = [(k, v)]"
| "own_set k v (p # ps) = (if fst p = k then (k, v) # ps else p # own_set k v ps)"

text \<open>
  \<^verbatim>\<open>variables[name] = v\<close>. For the name \<^verbatim>\<open>__proto__\<close> on an object without an own property
  of that name, the assignment goes to the setter of \<^verbatim>\<open>Object.prototype\<close>, which stores no
  property: it ignores a value that is not an object, and an object or \<^verbatim>\<open>null\<close> would
  become the prototype. The engine can assign an object under a name of the template's
  choice in one place only, the bound variable of a node; \<open>replaces_prototype\<close> below marks
  that case, which is outside the model.
\<close>

definition scope_set :: "string \<Rightarrow> jsval \<Rightarrow> scope \<Rightarrow> scope" where
  "scope_set k v sc =
     (if k = ''__proto__'' \<and> map_of sc ''__proto__'' = None then sc else own_set k v sc)"

text \<open>\<^verbatim>\<open>Object.assign(target, source)\<close>: every own property of the source, in order.\<close>

fun object_assign :: "scope \<Rightarrow> (string \<times> jsval) list \<Rightarrow> scope" where
  "object_assign sc [] = sc"
| "object_assign sc ((k, v) # ps) = object_assign (scope_set k v sc) ps"

subsection \<open>Character classes and the regular expressions\<close>

datatype cclass = Lower | Word | Space | Dot | AnyChar | NotRBrace

definition is_space :: "char \<Rightarrow> bool" where
  "is_space c = (of_char c \<in> set [9, 10, 11, 12, 13, 32, 160 :: nat])"

fun in_class :: "cclass \<Rightarrow> char \<Rightarrow> bool" where
  "in_class Lower c = (97 \<le> (of_char c :: nat) \<and> (of_char c :: nat) \<le> 122)"
| "in_class Word c =
     ((97 \<le> (of_char c :: nat) \<and> (of_char c :: nat) \<le> 122) \<or>
      (65 \<le> (of_char c :: nat) \<and> (of_char c :: nat) \<le> 90) \<or>
      (48 \<le> (of_char c :: nat) \<and> (of_char c :: nat) \<le> 57) \<or> c = CHR ''_'')"
| "in_class Space c = is_space c"
| "in_class Dot c = (of_char c \<notin> set [10, 13 :: nat])"
| "in_class AnyChar c = True"
| "in_class NotRBrace c = (c \<noteq> CHR ''}'')"

text \<open>
  The fragment of JavaScript's regular expressions that the four patterns use: a literal
  character, a quantified character class (greedy \<^verbatim>\<open>+\<close> and \<^verbatim>\<open>*\<close>, lazy \<^verbatim>\<open>+?\<close>), an
  optional part, a sequence, a named capture group and a back-reference to a group.
\<close>

datatype regex =
    Chr char
  | Plus cclass
  | PlusLazy cclass
  | Star cclass
  | Opt regex
  | Then regex regex
  | Group string regex
  | Backref string

type_synonym caps = "string \<Rightarrow> string option"

text \<open>
  \<open>rmatch r cs s\<close> lists every way \<open>r\<close> matches a prefix of \<open>s\<close>, as the captures and the
  rest of the input, in the order in which a backtracking matcher tries them: the head of
  the list is the match JavaScript reports.
\<close>

fun rmatch :: "regex \<Rightarrow> caps \<Rightarrow> string \<Rightarrow> (caps \<times> string) list" where
  "rmatch (Chr c) cs s = (case s of [] \<Rightarrow> [] | x # xs \<Rightarrow> if x = c then [(cs, xs)] else [])"
| "rmatch (Plus k) cs s =
     map (\<lambda>n. (cs, drop n s)) (rev [1 ..< Suc (length (takeWhile (in_class k) s))])"
| "rmatch (PlusLazy k) cs s =
     map (\<lambda>n. (cs, drop n s)) [1 ..< Suc (length (takeWhile (in_class k) s))]"
| "rmatch (Star k) cs s =
     map (\<lambda>n. (cs, drop n s)) (rev [0 ..< Suc (length (takeWhile (in_class k) s))])"
| "rmatch (Opt r) cs s = rmatch r cs s @ [(cs, s)]"
| "rmatch (Then r1 r2) cs s = concat (map (\<lambda>(cs', s'). rmatch r2 cs' s') (rmatch r1 cs s))"
| "rmatch (Group g r) cs s =
     map (\<lambda>(cs', s'). (cs'(g \<mapsto> take (length s - length s') s), s')) (rmatch r cs s)"
| "rmatch (Backref g) cs s =
     (case cs g of
        None \<Rightarrow> [(cs, s)]
      | Some t \<Rightarrow> if take (length t) s = t then [(cs, drop (length t) s)] else [])"

fun seq :: "regex list \<Rightarrow> regex" where
  "seq [] = Opt (Chr CHR ''x'')"
| "seq [r] = r"
| "seq (r # rs) = Then r (seq rs)"

text \<open>
  The patterns of \<^verbatim>\<open>RE\<close>. In \<open>RE_block\<close> the back-reference \<^verbatim>\<open>\1\<close> is to the first group,
  \<open>command\<close>.
\<close>

definition RE_block :: regex where
  "RE_block = seq [Chr CHR ''{'', Chr CHR ''#'', Group ''command'' (Plus Lower),
     Opt (seq [Chr CHR '' '', Opt (seq [Group ''var'' (Plus Word), Chr CHR ''='']),
               Group ''param'' (PlusLazy Dot)]),
     Chr CHR ''}'', Star Space, Group ''body'' (PlusLazy AnyChar), Star Space,
     Chr CHR ''{'', Chr CHR ''/'', Group ''endcmd'' (Backref ''command''), Chr CHR ''}'']"

definition RE_inline_command :: regex where
  "RE_inline_command = seq [Chr CHR ''{'', Chr CHR ''#'', Group ''command'' (Plus Lower),
     Opt (seq [Plus Space, Opt (seq [Group ''var'' (Plus Word), Chr CHR ''='']),
               Group ''input'' (seq [Chr (CHR 0x22), Plus Dot, Chr (CHR 0x22)])]),
     Opt (Chr CHR ''/''), Chr CHR ''}'']"

definition RE_var_read :: regex where
  "RE_var_read = seq [Chr CHR ''{'', Group ''name'' (Plus Word), Chr CHR ''}'']"

definition RE_var_write :: regex where
  "RE_var_write = seq [Chr CHR ''{'', Group ''var'' (Plus Word), Chr CHR ''='',
     Group ''value'' (Plus NotRBrace), Chr CHR ''}'']"

text \<open>One attempt of the matcher at the start of \<open>s\<close>: the captures and the length matched.\<close>

definition match_here :: "regex \<Rightarrow> string \<Rightarrow> (caps \<times> nat) option" where
  "match_here re s =
     (case rmatch re Map.empty s of
        [] \<Rightarrow> None
      | (cs, rest) # _ \<Rightarrow> Some (cs, length s - length rest))"

datatype piece = Lit string | Match caps

text \<open>
  The loop \<^verbatim>\<open>while ((match = regex.exec(str)) !== null)\<close> of \<^verbatim>\<open>findReplace\<close> on one string,
  for a regular expression with the \<^verbatim>\<open>g\<close> flag: the search resumes where the last match
  ended and tries every later position in turn. \<open>skip\<close> counts the characters of the last
  match that are still to be passed and \<open>acc\<close> holds, reversed, the text since the last
  match. A match of length zero leaves \<^verbatim>\<open>lastIndex\<close> where it was, and the loop does not
  end: the result is \<open>None\<close>.
\<close>

fun scan :: "regex \<Rightarrow> nat \<Rightarrow> string \<Rightarrow> string \<Rightarrow> piece list option" where
  "scan re (Suc k) acc (x # xs) = scan re k acc xs"
| "scan re (Suc k) acc [] = Some [Lit (rev acc)]"
| "scan re 0 acc [] =
     (case match_here re [] of
        Some _ \<Rightarrow> None
      | None \<Rightarrow> Some [Lit (rev acc)])"
| "scan re 0 acc (x # xs) =
     (case match_here re (x # xs) of
        Some (cs, n) \<Rightarrow>
          (if n = 0 then None
           else map_option (\<lambda>ps. Lit (rev acc) # Match cs # ps) (scan re (n - 1) [] xs))
      | None \<Rightarrow> scan re 0 (x # acc) xs)"

subsection \<open>Directive nodes and the four passes\<close>

datatype node =
    Block string "string option" "string option" string
  | Command string "string option" "string option"
  | VariableSet string string
  | Variable string

datatype elem = Text string | Node node

text \<open>
  A group that takes part in every match of its pattern; \<open>grp\<close> reads it. The optional
  groups (\<open>var\<close>, \<open>param\<close>, \<open>input\<close>) stay \<^typ>\<open>string option\<close>, \<open>None\<close> for \<^verbatim>\<open>undefined\<close>.
\<close>

definition grp :: "caps \<Rightarrow> string \<Rightarrow> string" where
  "grp cs g = (case cs g of None \<Rightarrow> [] | Some t \<Rightarrow> t)"

definition block_callback :: "caps \<Rightarrow> error + node" where
  "block_callback a =
     (if a ''command'' \<noteq> a ''endcmd''
      then Inl (UnexpectedCommandEnd
                 (''Unexpected command end: '' @ grp a ''command'' @ ''!='' @ grp a ''endcmd''))
      else Inr (Block (grp a ''command'') (a ''param'') (a ''var'') (grp a ''body'')))"

definition inline_callback :: "caps \<Rightarrow> error + node" where
  "inline_callback a = Inr (Command (grp a ''command'') (a ''input'') (a ''var''))"

definition var_write_callback :: "caps \<Rightarrow> error + node" where
  "var_write_callback a = Inr (VariableSet (grp a ''var'') (grp a ''value''))"

definition var_read_callback :: "caps \<Rightarrow> error + node" where
  "var_read_callback a = Inr (Variable (grp a ''name''))"

text \<open>The callbacks run in the order of the matches; the first one that throws ends the pass.\<close>

fun replace_pieces :: "(caps \<Rightarrow> error + node) \<Rightarrow> piece list \<Rightarrow> error + elem list" where
  "replace_pieces cb [] = Inr []"
| "replace_pieces cb (Lit t # ps) =
     (case replace_pieces cb ps of Inl e \<Rightarrow> Inl e | Inr es \<Rightarrow> Inr (Text t # es))"
| "replace_pieces cb (Match a # ps) =
     (case cb a of
        Inl e \<Rightarrow> Inl e
      | Inr n \<Rightarrow> (case replace_pieces cb ps of Inl e \<Rightarrow> Inl e | Inr es \<Rightarrow> Inr (Node n # es)))"

text \<open>
  \<^verbatim>\<open>findReplace\<close>: elements that are not strings and empty strings are passed on as they
  are; every other string is scanned. \<open>None\<close> when a scan does not end.
\<close>

fun findReplace :: "regex \<Rightarrow> (caps \<Rightarrow> error + node) \<Rightarrow> elem list \<Rightarrow> (error + elem list) option" where
  "findReplace re cb [] = Some (Inr [])"
| "findReplace re cb (Node n # es) =
     (case findReplace re cb es of
        None \<Rightarrow> None
      | Some (Inl e) \<Rightarrow> Some (Inl e)
      | Some (Inr out) \<Rightarrow> Some (Inr (Node n # out)))"
| "findReplace re cb (Text str # es) =
     (if str = [] then
        (case findReplace re cb es of
           None \<Rightarrow> None
         | Some (Inl e) \<Rightarrow> Some (Inl e)
         | Some (Inr out) \<Rightarrow> Some (Inr (Text str # out)))
      else
        (case scan re 0 [] str of
           None \<Rightarrow> None
         | Some ps \<Rightarrow>
             (case replace_pieces cb ps of
                Inl e \<Rightarrow> Some (Inl e)
              | Inr here \<Rightarrow>
                  (case findReplace re cb es of
                     None \<Rightarrow> None
                   | Some (Inl e) \<Rightarrow> Some (Inl e)
                   | Some (Inr out) \<Rightarrow> Some (Inr (here @ out))))))"

text \<open>The four passes at the head of \<^verbatim>\<open>getPrompt\<close>, in the source's order.\<close>

definition parse :: "string \<Rightarrow> (error + elem list) option" where
  "parse template =
     (case findReplace RE_block block_callback [Text template] of
        None \<Rightarrow> None
      | Some (Inl e) \<Rightarrow> Some (Inl e)
      | Some (Inr out1) \<Rightarrow>
     (case findReplace RE_inline_command inline_callback out1 of
        None \<Rightarrow> None
      | Some (Inl e) \<Rightarrow> Some (Inl e)
      | Some (Inr out2) \<Rightarrow>
     (case findReplace RE_var_write var_write_callback out2 of
        None \<Rightarrow> None
      | Some (Inl e) \<Rightarrow> Some (Inl e)
      | Some (Inr out3) \<Rightarrow> findReplace RE_var_read var_read_callback out3)))"

subsection \<open>Helpers on strings\<close>

text \<open>\<^verbatim>\<open>!str.trim().length\<close>: the string is empty or has white space only.\<close>

definition is_blank :: "string \<Rightarrow> bool" where
  "is_blank s = list_all is_space s"

text \<open>
  \<^verbatim>\<open>String.prototype.replace\<close> with a pattern that has the \<^verbatim>\<open>g\<close> flag and a function for
  the replacement. After an empty match the search moves on by one character.
\<close>

fun replace_all :: "regex \<Rightarrow> (caps \<Rightarrow> string) \<Rightarrow> nat \<Rightarrow> string \<Rightarrow> string" where
  "replace_all re f (Suc k) (x # xs) = replace_all re f k xs"
| "replace_all re f (Suc k) [] = []"
| "replace_all re f 0 [] = (case match_here re [] of Some (cs, n) \<Rightarrow> f cs | None \<Rightarrow> [])"
| "replace_all re f 0 (x # xs) =
     (case match_here re (x # xs) of
        Some (cs, n) \<Rightarrow>
          (if n = 0 then f cs @ x # replace_all re f 0 xs
           else f cs @ replace_all re f (n - 1) xs)
      | None \<Rightarrow> x # replace_all re f 0 xs)"

text \<open>\<^verbatim>\<open>replace(/c+/g, 'c')\<close> for a single character \<open>c\<close>: every run of \<open>c\<close> becomes one.\<close>

fun collapse :: "char \<Rightarrow> string \<Rightarrow> string" where
  "collapse c [] = []"
| "collapse c [x] = [x]"
| "collapse c (x # y # ys) =
     (if x = c \<and> y = c then collapse c (y # ys) else x # collapse c (y # ys))"

definition normalise :: "string \<Rightarrow> string" where
  "normalise promptText = collapse CHR '' '' (collapse (CHR 0x0A) promptText)"

text \<open>\<^verbatim>\<open>str.split(sep)\<close> and \<^verbatim>\<open>parts.join(sep)\<close> for a separator of one character.\<close>

fun split_on :: "char \<Rightarrow> string \<Rightarrow> string \<Rightarrow> string list" where
  "split_on c acc [] = [rev acc]"
| "split_on c acc (x # xs) =
     (if x = c then rev acc # split_on c [] xs else split_on c (x # acc) xs)"

fun join_with :: "char \<Rightarrow> string list \<Rightarrow> string" where
  "join_with c [] = []"
| "join_with c [p] = p"
| "join_with c (p # ps) = p @ c # join_with c ps"

text \<open>
  \<^verbatim>\<open>JSON.parse\<close> on a text that starts with a double quote, which is every text the group
  \<open>input\<close> of \<open>RE_inline_command\<close> captures: the text is a JSON string or a syntax error.
  An escape \<^verbatim>\<open>\uXXXX\<close> above 255 gives a string outside the model: \<open>Unrepresentable\<close>,
  the value of a run that leaves the model.
\<close>

definition hexval :: "char \<Rightarrow> nat option" where
  "hexval c =
     (let n = (of_char c :: nat) in
      if 48 \<le> n \<and> n \<le> 57 then Some (n - 48)
      else if 97 \<le> n \<and> n \<le> 102 then Some (n - 87)
      else if 65 \<le> n \<and> n \<le> 70 then Some (n - 55)
      else None)"

definition hex4 :: "char \<Rightarrow> char \<Rightarrow> char \<Rightarrow> char \<Rightarrow> nat option" where
  "hex4 a b c d =
     (case (hexval a, hexval b, hexval c, hexval d) of
        (Some x, Some y, Some z, Some u) \<Rightarrow> Some (((x * 16 + y) * 16 + z) * 16 + u)
      | _ \<Rightarrow> None)"

definition unescape :: "char \<Rightarrow> char option" where
  "unescape e =
     (if e = CHR 0x22 then Some e
      else if e = CHR 0x5C then Some e
      else if e = CHR ''/'' then Some e
      else if e = CHR ''b'' then Some (CHR 0x08)
      else if e = CHR ''f'' then Some (CHR 0x0C)
      else if e = CHR ''n'' then Some (CHR 0x0A)
      else if e = CHR ''r'' then Some (CHR 0x0D)
      else if e = CHR ''t'' then Some (CHR 0x09)
      else None)"

fun json_chars :: "string \<Rightarrow> string \<Rightarrow> bool \<Rightarrow> error + string" where
  "json_chars [] acc bad = Inl SyntaxError"
| "json_chars (c # cs) acc bad =
     (if c = CHR 0x22 then
        (if list_all (\<lambda>x. of_char x \<in> set [9, 10, 13, 32 :: nat]) cs
         then (if bad then Inl Unrepresentable else Inr (rev acc))
         else Inl SyntaxError)
      else if c = CHR 0x5C then
        (case cs of
           [] \<Rightarrow> Inl SyntaxError
         | e # cs' \<Rightarrow>
             if e = CHR ''u'' then
               (case cs' of
                  h1 # h2 # h3 # h4 # rest \<Rightarrow>
                    (case hex4 h1 h2 h3 h4 of
                       None \<Rightarrow> Inl SyntaxError
                     | Some v \<Rightarrow>
                         if v < 256 then json_chars rest (char_of v # acc) bad
                         else json_chars rest acc True)
                | _ \<Rightarrow> Inl SyntaxError)
             else
               (case unescape e of
                  None \<Rightarrow> Inl SyntaxError
                | Some x \<Rightarrow> json_chars cs' (x # acc) bad))
      else if (of_char c :: nat) < 32 then Inl SyntaxError
      else json_chars cs (c # acc) bad)"

definition json_parse :: "string \<Rightarrow> error + string" where
  "json_parse s =
     (case s of
        [] \<Rightarrow> Inl SyntaxError
      | c # cs \<Rightarrow> if c = CHR 0x22 then json_chars cs [] False else Inl SyntaxError)"

text \<open>
  \<^verbatim>\<open>try { block.value = JSON.parse(block.value) } catch (e) { }\<close>: the value stays as it
  was when the parse throws, and \<^verbatim>\<open>JSON.parse(undefined)\<close> throws.
\<close>

definition parse_value :: "string option \<Rightarrow> error + string option" where
  "parse_value v =
     (case v of
        None \<Rightarrow> Inr None
      | Some s \<Rightarrow>
          (case json_parse s of
             Inr t \<Rightarrow> Inr (Some t)
           | Inl Unrepresentable \<Rightarrow> Inl Unrepresentable
           | Inl _ \<Rightarrow> Inr (Some s)))"

text \<open>
  \<^verbatim>\<open>simpleVarReplace\<close>: every \<^verbatim>\<open>{name}\<close> of the string becomes
  \<^verbatim>\<open>variables[name] || ''\<close>, converted to a string.
\<close>

definition simpleVarReplace :: "scope \<Rightarrow> string \<Rightarrow> string" where
  "simpleVarReplace variables string =
     replace_all RE_var_read
       (\<lambda>a. to_string (js_or (scope_get variables (grp a ''name'')) (JStr []))) 0 string"

subsection \<open>The world outside the engine\<close>

record attachment =
  file_name :: string
  file_type :: string
  file_size :: nat
  extracted_content :: string

text \<open>
  The requests sent to the conversation backend, in the order they are made:
  \<^verbatim>\<open>claude.init()\<close>, the one-shot \<^verbatim>\<open>claude.sendMessage\<close> of \<^verbatim>\<open>callClaude\<close>,
  \<^verbatim>\<open>claude.startConversation\<close> and \<^verbatim>\<open>convo.sendMessage\<close>.
\<close>

datatype event =
    Init
  | CallClaude string
  | StartConversation string "attachment list"
  | SendMessage string "attachment list"

text \<open>
  The world: the files by path, the requests made so far, \<^verbatim>\<open>claude.ready\<close> and the number of
  random names drawn. Only a missing file makes a read fail, and a write never fails.
\<close>

record world =
  files :: "(string \<times> string) list"
  net :: "event list"
  ready :: bool
  rnd :: nat

definition readFileSync :: "world \<Rightarrow> string \<Rightarrow> error + string" where
  "readFileSync w path =
     (case map_of (files w) path of None \<Rightarrow> Inl (FileNotFound path) | Some text \<Rightarrow> Inr text)"

fun write_file :: "string \<Rightarrow> string \<Rightarrow> (string \<times> string) list \<Rightarrow> (string \<times> string) list" where
  "write_file path text [] = [(path, text)]"
| "write_file path text (f # fs) =
     (if fst f = path then (path, text) # fs else f # write_file path text fs)"

definition writeFileSync :: "string \<Rightarrow> string \<Rightarrow> world \<Rightarrow> world" where
  "writeFileSync path text w = w\<lparr>files := write_file path text (files w)\<rparr>"

text \<open>
  What the engine takes from its surroundings. The client library \<^verbatim>\<open>../index.js\<close> and
  Node's \<^verbatim>\<open>path\<close> module are not among the sources, and \<^verbatim>\<open>eval\<close> runs arbitrary code:
  \<^item> \<open>backend\<close>: the final response object the backend delivers for the last request of
    the log (section 6 of the specification: \<^verbatim>\<open>done\<close> is called once with it);
  \<^item> \<open>js_eval\<close>: what \<^verbatim>\<open>eval(EVAL_STR)\<close> resolves to, from the names bound as parameters,
    the function body and the scope given as argument; effects of the evaluated code on
    the world are outside the model;
  \<^item> \<open>random_hex\<close>: the digits \<^verbatim>\<open>Math.random().toString(16).slice(2).slice(0, 6)\<close>;
  \<^item> \<open>path_join\<close> and \<open>sep\<close>: \<^verbatim>\<open>path.join\<close> on two arguments and \<^verbatim>\<open>path.sep\<close>.
\<close>

record env =
  backend :: "event list \<Rightarrow> jsval"
  js_eval :: "string list \<Rightarrow> string \<Rightarrow> scope \<Rightarrow> error + jsval"
  random_hex :: "nat \<Rightarrow> string"
  path_join :: "string \<Rightarrow> string \<Rightarrow> string"
  sep :: char

text \<open>\<^verbatim>\<open>v[k]\<close> for a property name \<open>k\<close>: a \<^verbatim>\<open>TypeError\<close> on \<^verbatim>\<open>undefined\<close> and \<^verbatim>\<open>null\<close>.\<close>

fun get_prop :: "jsval \<Rightarrow> string \<Rightarrow> error + jsval" where
  "get_prop JUndefined k = Inl TypeError"
| "get_prop JNull k = Inl TypeError"
| "get_prop (JObj ps) k = Inr (case map_of ps k of None \<Rightarrow> JUndefined | Some v \<Rightarrow> v)"
| "get_prop v k = Inr JUndefined"

text \<open>
  The \<^verbatim>\<open>done\<close> callback that \<^verbatim>\<open>status\<close> wraps around every request: a response without a
  completion ends the process with \<^verbatim>\<open>EXIT(1)\<close>.
\<close>

definition status_done :: "jsval \<Rightarrow> error + jsval" where
  "status_done a =
     (case get_prop a ''completion'' of
        Inl e \<Rightarrow> Inl e
      | Inr c \<Rightarrow> if \<not> truthy c then Inl (ProcessExit 1) else Inr a)"

definition request :: "env \<Rightarrow> event \<Rightarrow> world \<Rightarrow> error + jsval \<times> world" where
  "request ev r w =
     (let w' = w\<lparr>net := net w @ [r]\<rparr> in
      case status_done (backend ev (net w')) of
        Inl e \<Rightarrow> Inl e
      | Inr a \<Rightarrow> Inr (a, w'))"

definition callClaude :: "env \<Rightarrow> string \<Rightarrow> world \<Rightarrow> error + jsval \<times> world" where
  "callClaude ev prompt w = request ev (CallClaude prompt) w"

subsection \<open>The dispatcher\<close>

text \<open>
  The object a command returns. A key that is absent is \<open>None\<close>; a key that is present can
  still hold \<^verbatim>\<open>undefined\<close>. \<^verbatim>\<open>getPrompt\<close> returns the scope object itself under the key
  \<^verbatim>\<open>variables\<close>, and the evaluator then assigns the scope to itself: \<open>SameScope\<close> keeps that
  aliasing apart from a fresh object \<open>Fresh\<close>.
\<close>

datatype varsref = SameScope | Fresh "(string \<times> jsval) list"

record cmd_result =
  r_body :: "jsval option"
  r_value :: "jsval option"
  r_variables :: "varsref option"
  r_attachments :: "attachment list option"
  r_every :: "string list option"
  r_followup :: "string list option"

definition empty_result :: cmd_result where
  "empty_result = \<lparr>r_body = None, r_value = None, r_variables = None, r_attachments = None,
     r_every = None, r_followup = None\<rparr>"

definition BLACKLIST :: "string list" where
  "BLACKLIST = [''void'', ''var'', ''let'', ''const'', ''private'', ''public'', ''window'',
     ''body'', ''document'', ''globalThis'', ''globals'', ''import'', ''class'', ''async'',
     ''function'', ''this'', ''return'', ''yield'', ''throw'', ''catch'', ''break'', ''case'',
     ''continue'', ''default'', ''do'', ''else'', ''finally'', ''if'', ''in'', ''return'',
     ''switch'', ''throw'', ''try'', ''while'', ''with'', ''yield'']"

text \<open>\<^verbatim>\<open>if (param)\<close> and \<^verbatim>\<open>if (block.var)\<close> on a value that is a string or \<^verbatim>\<open>undefined\<close>.\<close>

definition truthy_str :: "string option \<Rightarrow> bool" where
  "truthy_str p = (case p of None \<Rightarrow> False | Some t \<Rightarrow> t \<noteq> [])"

text \<open>The size of \<^verbatim>\<open>new Blob([arg])\<close>: the length of the text in UTF-8.\<close>

definition blob_size :: "string \<Rightarrow> nat" where
  "blob_size arg = sum_list (map (\<lambda>c. if (of_char c :: nat) < 128 then 1 else 2) arg)"

definition runCommand ::
  "env \<Rightarrow> string \<Rightarrow> scope \<Rightarrow> string \<Rightarrow> string option \<Rightarrow> world \<Rightarrow> error + cmd_result \<times> world" where
  "runCommand ev command variables arg param w =
     (if command = ''writefile'' then
        (case param of
           None \<Rightarrow> Inl TypeError
         | Some path \<Rightarrow>
             Inr (empty_result\<lparr>r_value := Some (JStr arg), r_body := Some (JStr [])\<rparr>,
                  writeFileSync path arg w))
      else if command = ''js'' \<or> command \<in> set [''jsdisplay'', ''jsd''] then
        (case js_eval ev (filter (\<lambda>i. i \<notin> set BLACKLIST) (map fst variables))
                (if length (split_on (CHR 0x0A) [] arg) = 1 then ''return '' @ arg else arg)
                variables of
           Inl e \<Rightarrow> Inl e
         | Inr result \<Rightarrow>
             Inr (empty_result\<lparr>
                    r_body := Some (if command \<in> set [''jsdisplay'', ''jsd''] then result else JStr []),
                    r_value := Some result,
                    r_variables := Some (Fresh
                      (case param of
                         Some p \<Rightarrow> if p \<noteq> [] then scope_set p result [(''js_response'', result)]
                                   else [(''js_response'', result)]
                       | None \<Rightarrow> [(''js_response'', result)]))\<rparr>, w))
      else if command = ''every'' then
        Inr (empty_result\<lparr>r_every := Some [arg]\<rparr>, w)
      else if command = ''file'' then
        Inr (empty_result\<lparr>r_value := Some (JStr arg), r_body := Some (JStr []),
               r_attachments := Some [\<lparr>
                 file_name = (if truthy_str param then (case param of Some p \<Rightarrow> p | None \<Rightarrow> [])
                              else ''file-'' @ random_hex ev (rnd w) @ ''.txt''),
                 file_type = ''text/plain'',
                 file_size = blob_size arg,
                 extracted_content = arg\<rparr>]\<rparr>,
             if truthy_str param then w else w\<lparr>rnd := Suc (rnd w)\<rparr>)
      else if command = ''followup'' then
        Inr (empty_result\<lparr>r_followup := Some [arg]\<rparr>, w)
      else if command = ''claude'' then
        (case callClaude ev arg w of
           Inl e \<Rightarrow> Inl e
         | Inr (result, w') \<Rightarrow>
             (case get_prop result ''completion'' of
                Inl e \<Rightarrow> Inl e
              | Inr completion \<Rightarrow>
                  Inr (empty_result\<lparr>r_body := Some completion,
                         r_variables := Some (Fresh [(''claude_response'', result)])\<rparr>, w')))
      else Inr (empty_result\<lparr>r_body := Some (JStr (command @ ''('' @ arg @ '')''))\<rparr>, w))"

subsection \<open>The evaluator\<close>

text \<open>
  What \<^verbatim>\<open>getPrompt\<close> returns, without the key \<^verbatim>\<open>variables\<close> (the scope, returned beside
  it). The same record holds the variables of the evaluator's loop, \<open>body\<close> for
  \<^verbatim>\<open>promptText\<close>. The items of the two queues are the objects \<^verbatim>\<open>{ body: arg }\<close>, written as
  their body.
\<close>

record evaluation =
  body :: string
  attachments :: "attachment list"
  followup :: "string list"
  every :: "string list"

type_synonym eval_state = "evaluation \<times> scope \<times> world"

text \<open>
  The result of a call that can throw and can fail to return: \<open>None\<close> when it does not return
  (the fuel of \<open>getPrompt\<close> is used up), \<open>Some (Inl e)\<close> when it throws \<open>e\<close>.
\<close>

type_synonym 'a outcome = "(error + 'a) option"

text \<open>The lines after the two branches of the loop body, from \<^verbatim>\<open>result = { body: '', ...\<close> on.\<close>

definition finish_node :: "string option \<Rightarrow> cmd_result \<Rightarrow> evaluation \<Rightarrow> scope \<Rightarrow> evaluation \<times> scope" where
  "finish_node var result acc variables =
     (let result_body = (case r_body result of None \<Rightarrow> JStr [] | Some b \<Rightarrow> b);
          result_value = (case r_value result of None \<Rightarrow> JUndefined | Some v \<Rightarrow> v);
          variables1 = scope_set ''response'' (js_or result_value result_body) variables;
          variables2 = scope_set ''result'' (js_or result_value result_body) variables1;
          variables3 = (case r_variables result of
                          None \<Rightarrow> variables2
                        | Some SameScope \<Rightarrow> variables2
                        | Some (Fresh ps) \<Rightarrow> object_assign variables2 ps);
          variables4 = (case var of
                          None \<Rightarrow> variables3
                        | Some v \<Rightarrow> if v \<noteq> [] then scope_set v (scope_get variables3 ''response'') variables3
                                    else variables3)
      in (acc\<lparr>body := body acc @ to_string result_body,
               attachments := attachments acc @ (case r_attachments result of None \<Rightarrow> [] | Some xs \<Rightarrow> xs),
               every := every acc @ (case r_every result of None \<Rightarrow> [] | Some xs \<Rightarrow> xs),
               followup := followup acc @ (case r_followup result of None \<Rightarrow> [] | Some xs \<Rightarrow> xs)\<rparr>,
          variables4))"

text \<open>The object \<^verbatim>\<open>ran\<close> that a nested \<^verbatim>\<open>getPrompt\<close> returns (\<open>nested\<close> below), taken as the
  result of an import.\<close>

definition result_of_ran :: "evaluation \<Rightarrow> cmd_result" where
  "result_of_ran nested = \<lparr>r_body = Some (JStr (body nested)), r_value = None,
     r_variables = Some SameScope, r_attachments = Some (attachments nested),
     r_every = Some (every nested), r_followup = Some (followup nested)\<rparr>"

text \<open>
  The node binds its variable \<^verbatim>\<open>__proto__\<close> to an object (or to \<^verbatim>\<open>null\<close>, or to a value of
  another type, which may be an object): the assignment \<^verbatim>\<open>variables[block.var] =
  variables.response\<close> would replace the prototype of the scope.
\<close>

definition replaces_prototype :: "string option \<Rightarrow> cmd_result \<Rightarrow> scope \<Rightarrow> bool" where
  "replaces_prototype var result variables =
     (var = Some ''__proto__'' \<and> map_of variables ''__proto__'' = None \<and>
      (case scope_get (snd (finish_node None result \<lparr>body = [], attachments = [], followup = [],
                              every = []\<rparr> variables)) ''response'' of
         JObj ps \<Rightarrow> True
       | JNull \<Rightarrow> True
       | JOther s t \<Rightarrow> True
       | _ \<Rightarrow> False))"

text \<open>\<open>finish_node\<close> for a node that can have a bound variable.\<close>

definition finish_checked ::
  "string option \<Rightarrow> cmd_result \<Rightarrow> evaluation \<Rightarrow> scope \<Rightarrow> world \<Rightarrow> eval_state outcome" where
  "finish_checked var result acc variables w =
     (if replaces_prototype var result variables then Some (Inl Unrepresentable)
      else (case finish_node var result acc variables of
              (acc', variables') \<Rightarrow> Some (Inr (acc', variables', w))))"

text \<open>
  One round of the loop \<^verbatim>\<open>for (const block of out)\<close> on a node. \<open>rec\<close> is the recursive call
  of \<^verbatim>\<open>getPrompt\<close> on the same scope object.
\<close>

definition eval_node ::
  "env \<Rightarrow> (string \<Rightarrow> scope \<Rightarrow> world \<Rightarrow> eval_state outcome) \<Rightarrow> node \<Rightarrow> eval_state \<Rightarrow> eval_state outcome" where
  "eval_node ev rec block st =
     (case st of (acc, variables, w) \<Rightarrow>
      (case block of
         Variable name \<Rightarrow>
           (case finish_node None empty_result
                   (acc\<lparr>body := body acc @ to_string (scope_get variables name)\<rparr>) variables of
              (acc', variables') \<Rightarrow> Some (Inr (acc', variables', w)))
       | VariableSet name val \<Rightarrow>
           (case finish_node None empty_result acc (scope_set name (JStr val) variables) of
              (acc', variables') \<Rightarrow> Some (Inr (acc', variables', w)))
       | Command command val var \<Rightarrow>
           (case parse_value val of
              Inl e \<Rightarrow> Some (Inl e)
            | Inr val' \<Rightarrow>
                if command = ''import'' then
                  (case scope_get variables ''templatePath'' of
                     JStr templatePath \<Rightarrow>
                       (case val' of
                          None \<Rightarrow> Some (Inl TypeError)
                        | Some v \<Rightarrow>
                            (let path = path_join ev
                                   (join_with (sep ev) (butlast (split_on (sep ev) [] templatePath))) v
                             in case readFileSync w path of
                                  Inl e \<Rightarrow> Some (Inl e)
                                | Inr text \<Rightarrow>
                                    (case rec text variables w of
                                       None \<Rightarrow> None
                                     | Some (Inl e) \<Rightarrow> Some (Inl e)
                                     | Some (Inr (nested, variables', w')) \<Rightarrow>
                                         finish_checked var (result_of_ran nested) acc variables' w')))
                   | _ \<Rightarrow> Some (Inl TypeError))
                else
                  (case val' of
                     None \<Rightarrow> Some (Inl TypeError)
                   | Some v \<Rightarrow>
                       (case runCommand ev command variables (simpleVarReplace variables v) None w of
                          Inl e \<Rightarrow> Some (Inl e)
                        | Inr (result, w') \<Rightarrow>
                            finish_checked var
                              (if truthy_str var then result\<lparr>r_body := Some (JStr [])\<rparr> else result)
                              acc variables w')))
       | Block command param var text \<Rightarrow>
           if command \<in> set [''followup'', ''every''] then
             (case runCommand ev command variables text param w of
                Inl e \<Rightarrow> Some (Inl e)
              | Inr (result, w') \<Rightarrow> finish_checked var result acc variables w')
           else
             (case rec text variables w of
                None \<Rightarrow> None
              | Some (Inl e) \<Rightarrow> Some (Inl e)
              | Some (Inr (nested, variables', w')) \<Rightarrow>
                  (case runCommand ev command variables' (body nested) param w' of
                     Inl e \<Rightarrow> Some (Inl e)
                   | Inr (result, w'') \<Rightarrow>
                       finish_checked var result
                         (acc\<lparr>attachments := attachments acc @ attachments nested,
                              followup := followup acc @ followup nested\<rparr>) variables' w''))))"

definition eval_elem ::
  "env \<Rightarrow> (string \<Rightarrow> scope \<Rightarrow> world \<Rightarrow> eval_state outcome) \<Rightarrow> elem \<Rightarrow> eval_state \<Rightarrow> eval_state outcome" where
  "eval_elem ev rec block st =
     (case block of
        Text t \<Rightarrow>
          (case st of (acc, variables, w) \<Rightarrow>
             Some (Inr (acc\<lparr>body := body acc @ (if is_blank t then [CHR 0x0A] else t)\<rparr>,
                        variables, w)))
      | Node n \<Rightarrow> eval_node ev rec n st)"

fun eval_elems ::
  "env \<Rightarrow> (string \<Rightarrow> scope \<Rightarrow> world \<Rightarrow> eval_state outcome) \<Rightarrow> elem list \<Rightarrow> eval_state \<Rightarrow> eval_state outcome" where
  "eval_elems ev rec [] st = Some (Inr st)"
| "eval_elems ev rec (block # out) st =
     (case eval_elem ev rec block st of
        None \<Rightarrow> None
      | Some (Inl e) \<Rightarrow> Some (Inl e)
      | Some (Inr st') \<Rightarrow> eval_elems ev rec out st')"

definition empty_evaluation :: evaluation where
  "empty_evaluation = \<lparr>body = [], attachments = [], followup = [], every = []\<rparr>"

text \<open>
  \<^verbatim>\<open>getPrompt\<close>. An imported file can import itself, so the recursion need not end: the
  first argument bounds the depth of nested calls.
\<close>

fun getPrompt :: "nat \<Rightarrow> env \<Rightarrow> string \<Rightarrow> scope \<Rightarrow> world \<Rightarrow> eval_state outcome" where
  "getPrompt 0 ev template variables w = None"
| "getPrompt (Suc n) ev template variables w =
     (case parse template of
        None \<Rightarrow> None
      | Some (Inl e) \<Rightarrow> Some (Inl e)
      | Some (Inr out) \<Rightarrow>
          (case eval_elems ev (getPrompt n ev) out (empty_evaluation, variables, w) of
             None \<Rightarrow> None
           | Some (Inl e) \<Rightarrow> Some (Inl e)
           | Some (Inr (acc, variables', w')) \<Rightarrow>
               Some (Inr (acc\<lparr>body := normalise (body acc)\<rparr>, variables', w'))))"

subsection \<open>The orchestrator\<close>

text \<open>
  The object \<^verbatim>\<open>prompt\<close> of \<^verbatim>\<open>runPrompt\<close> after the defaults \<^verbatim>\<open>variables\<close>, \<^verbatim>\<open>body\<close>,
  \<^verbatim>\<open>followup\<close> and \<^verbatim>\<open>attachments\<close> are filled in. No default is given for \<^verbatim>\<open>every\<close>, which
  is \<open>None\<close> when the caller's object has no such key.
\<close>

datatype conversation = EmptyObject | Conversation

record prompt =
  p_variables :: scope
  p_body :: string
  p_followup :: "string list"
  p_attachments :: "attachment list"
  p_every :: "string list option"
  p_dontRespond :: bool
  p_conversation :: "conversation option"

text \<open>
  The truthiness of a key that holds an array or is absent: an array is an object, and every
  object is truthy, the empty array too.
\<close>

definition truthy_array :: "'a list option \<Rightarrow> bool" where
  "truthy_array a = (case a of None \<Rightarrow> False | Some xs \<Rightarrow> True)"

text \<open>
  \<^verbatim>\<open>convo.sendMessage\<close>. The variable \<^verbatim>\<open>convo\<close> is \<^verbatim>\<open>undefined\<close> until
  \<^verbatim>\<open>claude.startConversation\<close> has returned: \<open>convo\<close> says whether it is set.
\<close>

definition sendMessage :: "env \<Rightarrow> bool \<Rightarrow> string \<Rightarrow> attachment list \<Rightarrow> world \<Rightarrow> error + jsval \<times> world" where
  "sendMessage ev convo text atts w =
     (if \<not> convo then Inl TypeError else request ev (SendMessage text atts) w)"

text \<open>\<^verbatim>\<open>runEveries\<close>: the loop \<^verbatim>\<open>for (let j of prompt.every)\<close>.\<close>

fun runEveries_loop ::
  "nat \<Rightarrow> env \<Rightarrow> bool \<Rightarrow> string list \<Rightarrow> scope \<Rightarrow> world \<Rightarrow> (scope \<times> world) outcome" where
  "runEveries_loop n ev convo [] variables w = Some (Inr (variables, w))"
| "runEveries_loop n ev convo (j # js) variables w =
     (case getPrompt n ev j variables w of
        None \<Rightarrow> None
      | Some (Inl e) \<Rightarrow> Some (Inl e)
      | Some (Inr (thing, variables1, w1)) \<Rightarrow>
          if is_blank (body thing) then runEveries_loop n ev convo js variables1 w1
          else
            (case sendMessage ev convo (body thing) (attachments thing) w1 of
               Inl e \<Rightarrow> Some (Inl e)
             | Inr (a, w2) \<Rightarrow>
                 runEveries_loop n ev convo js (scope_set ''claude_response'' a variables1) w2))"

definition runEveries ::
  "nat \<Rightarrow> env \<Rightarrow> bool \<Rightarrow> string list option \<Rightarrow> scope \<Rightarrow> world \<Rightarrow> (scope \<times> world) outcome" where
  "runEveries n ev convo evs variables w =
     (case evs of
        None \<Rightarrow> Some (Inl TypeError)
      | Some js \<Rightarrow> runEveries_loop n ev convo js variables w)"

text \<open>One round of the loop \<^verbatim>\<open>for (let i of prompt.followup)\<close>.\<close>

definition followup_step ::
  "nat \<Rightarrow> env \<Rightarrow> bool \<Rightarrow> string \<Rightarrow> prompt \<times> world \<Rightarrow> (prompt \<times> world) outcome" where
  "followup_step n ev convo i st =
     (case st of (prompt, w) \<Rightarrow>
      (case getPrompt n ev i (p_variables prompt) w of
         None \<Rightarrow> None
       | Some (Inl e) \<Rightarrow> Some (Inl e)
       | Some (Inr (fu, variables1, w1)) \<Rightarrow>
           (case p_every prompt of
              None \<Rightarrow> Some (Inl TypeError)
            | Some evs \<Rightarrow>
                (let prompt1 = prompt\<lparr>p_variables := variables1,
                                      p_followup := p_followup prompt @ followup fu,
                                      p_every := Some (evs @ every fu)\<rparr>
                 in if is_blank (body fu) then Some (Inr (prompt1, w1))
                    else
                      (case sendMessage ev convo (body fu) (attachments fu) w1 of
                         Inl e \<Rightarrow> Some (Inl e)
                       | Inr (a, w2) \<Rightarrow>
                           (case runEveries n ev convo (p_every prompt1)
                                   (scope_set ''claude_response'' a variables1) w2 of
                              None \<Rightarrow> None
                            | Some (Inl e) \<Rightarrow> Some (Inl e)
                            | Some (Inr (variables2, w3)) \<Rightarrow>
                                Some (Inr (prompt1\<lparr>p_variables := variables2\<rparr>, w3))))))))"

text \<open>
  The loop over \<^verbatim>\<open>prompt.followup\<close>. The array grows while the loop runs, and the iterator of
  a JavaScript array goes by index: \<open>idx\<close> is the index of the next item. The loop need not
  end; \<open>k\<close> bounds the number of rounds.
\<close>

fun followup_loop ::
  "nat \<Rightarrow> env \<Rightarrow> bool \<Rightarrow> nat \<Rightarrow> nat \<Rightarrow> prompt \<times> world \<Rightarrow> (prompt \<times> world) outcome" where
  "followup_loop n ev convo 0 idx st =
     (if idx < length (p_followup (fst st)) then None else Some (Inr st))"
| "followup_loop n ev convo (Suc k) idx st =
     (if idx < length (p_followup (fst st)) then
        (case followup_step n ev convo (p_followup (fst st) ! idx) st of
           None \<Rightarrow> None
         | Some (Inl e) \<Rightarrow> Some (Inl e)
         | Some (Inr st1) \<Rightarrow> followup_loop n ev convo k (Suc idx) st1)
      else Some (Inr st))"

text \<open>
  The first exchange: the branches on \<^verbatim>\<open>prompt.dontRespond\<close> and on the body. The result
  says whether \<^verbatim>\<open>convo\<close> is set.
\<close>

definition first_exchange :: "env \<Rightarrow> prompt \<Rightarrow> world \<Rightarrow> error + prompt \<times> bool \<times> world" where
  "first_exchange ev prompt w =
     (if p_dontRespond prompt then
        Inr (prompt\<lparr>p_variables :=
                      scope_set ''claude_response'' (JObj [(''completion'', JStr (p_body prompt))])
                        (scope_set ''response'' (JStr (p_body prompt)) (p_variables prompt)),
                    p_conversation := Some EmptyObject\<rparr>, False, w)
      else if \<not> is_blank (p_body prompt) then
        (case request ev (StartConversation (p_body prompt) (p_attachments prompt)) w of
           Inl e \<Rightarrow> Inl e
         | Inr (a, w1) \<Rightarrow>
             (case get_prop a ''completion'' of
                Inl e \<Rightarrow> Inl e
              | Inr completion \<Rightarrow>
                  Inr (prompt\<lparr>p_variables :=
                                scope_set ''response'' completion
                                  (scope_set ''claude_response'' a (p_variables prompt)),
                              p_conversation := Some Conversation\<rparr>, True, w1)))
      else Inr (prompt, False, w))"

text \<open>
  \<^verbatim>\<open>runPrompt\<close>. The early \<^verbatim>\<open>return\<close> gives \<^verbatim>\<open>undefined\<close>, here \<open>None\<close> for the prompt.
  \<^verbatim>\<open>claude.init()\<close> belongs to the client library: it is recorded as a request and taken to
  set \<^verbatim>\<open>claude.ready\<close>.
\<close>

definition runPrompt :: "nat \<Rightarrow> env \<Rightarrow> prompt \<Rightarrow> world \<Rightarrow> (prompt option \<times> world) outcome" where
  "runPrompt n ev prompt w =
     (if \<not> (\<not> is_blank (p_body prompt) \<or> truthy_array (p_every prompt)
             \<or> truthy_array (Some (p_followup prompt)))
      then Some (Inr (None, w))
      else
        (let w1 = (if \<not> ready w then w\<lparr>net := net w @ [Init], ready := True\<rparr> else w) in
         case first_exchange ev prompt w1 of
           Inl e \<Rightarrow> Some (Inl e)
         | Inr (prompt1, convo, w2) \<Rightarrow>
             (case runEveries n ev convo (p_every prompt1) (p_variables prompt1) w2 of
                None \<Rightarrow> None
              | Some (Inl e) \<Rightarrow> Some (Inl e)
              | Some (Inr (variables, w3)) \<Rightarrow>
                  (case followup_loop n ev convo n 0 (prompt1\<lparr>p_variables := variables\<rparr>, w3) of
                     None \<Rightarrow> None
                   | Some (Inl e) \<Rightarrow> Some (Inl e)
                   | Some (Inr (prompt2, w4)) \<Rightarrow> Some (Inr (Some prompt2, w4))))))"

text \<open>
  The object that \<^verbatim>\<open>template\<close> hands to \<^verbatim>\<open>runPrompt\<close>: the result of \<^verbatim>\<open>getPrompt\<close> with the
  attachments of the command line in front.
\<close>

definition prompt_of :: "attachment list \<Rightarrow> evaluation \<Rightarrow> scope \<Rightarrow> prompt" where
  "prompt_of atts r variables =
     \<lparr>p_variables = variables, p_body = body r, p_followup = followup r,
      p_attachments = atts @ attachments r, p_every = Some (every r),
      p_dontRespond = False, p_conversation = None\<rparr>"

text \<open>\<^verbatim>\<open>getPrompt\<close> and then \<^verbatim>\<open>runPrompt\<close>, as \<^verbatim>\<open>template\<close> calls them.\<close>

definition run_template ::
  "nat \<Rightarrow> env \<Rightarrow> attachment list \<Rightarrow> string \<Rightarrow> scope \<Rightarrow> world \<Rightarrow> (prompt option \<times> world) outcome" where
  "run_template n ev atts templateText variables w =
     (case getPrompt n ev templateText variables w of
        None \<Rightarrow> None
      | Some (Inl e) \<Rightarrow> Some (Inl e)
      | Some (Inr (r, variables1, w1)) \<Rightarrow> runPrompt n ev (prompt_of atts r variables1) w1)"

subsection \<open>A sample environment\<close>

text \<open>A backend that answers every request with the completion \<open>ok\<close>, and an empty world.\<close>

definition demo_env :: env where
  "demo_env = \<lparr>backend = (\<lambda>log. JObj [(''completion'', JStr ''ok'')]),
     js_eval = (\<lambda>names code variables. Inr (JStr ''js'')),
     random_hex = (\<lambda>n. ''abcdef''),
     path_join = (\<lambda>dir name. dir @ ''/'' @ name),
     sep = CHR ''/''\<rparr>"

definition demo_world :: world where
  "demo_world = \<lparr>files = [], net = [], ready = True, rnd = 0\<rparr>"

text \<open>A prompt with one queued followup that reads the variable \<open>y\<close>.\<close>

definition demo_prompt :: prompt where
  "demo_prompt = \<lparr>p_variables = [(''y'', JStr ''5'')], p_body = ''x'', p_followup = [''{y}''],
     p_attachments = [], p_every = Some [], p_dontRespond = False, p_conversation = None\<rparr>"

text \<open>
  Three more prompts: one with a blank body and empty queues, one with two followups and two
  every-items, one with two followups only.
\<close>

definition demo_blank_prompt :: prompt where
  "demo_blank_prompt = \<lparr>p_variables = [(''x'', JStr ''1'')], p_body = [CHR 0x0A],
     p_followup = [], p_attachments = [], p_every = Some [], p_dontRespond = False,
     p_conversation = None\<rparr>"

definition demo_queue_prompt :: prompt where
  "demo_queue_prompt = \<lparr>p_variables = [], p_body = ''x'', p_followup = [''a'', ''b''],
     p_attachments = [], p_every = Some [''e'', ''f''], p_dontRespond = False,
     p_conversation = None\<rparr>"

definition demo_followup_prompt :: prompt where
  "demo_followup_prompt = \<lparr>p_variables = [], p_body = ''x'', p_followup = [''a'', ''b''],
     p_attachments = [], p_every = Some [], p_dontRespond = False, p_conversation = None\<rparr>"

text \<open>A prompt whose every-item reads the variable \<open>response\<close>, with one followup.\<close>

definition demo_response_prompt :: prompt where
  "demo_response_prompt = \<lparr>p_variables = [], p_body = ''x'', p_followup = [''a''],
     p_attachments = [], p_every = Some [''{response}''], p_dontRespond = False,
     p_conversation = None\<rparr>"

subsection \<open>Vocabulary of the statements\<close>

text \<open>
  A queued text is \<open>plain\<close> when it holds no directive at all (no opening brace) and is not
  blank. \<open>sends items\<close> are the requests \<^verbatim>\<open>convo.sendMessage\<close> for the items, one after the
  other, each with its normalised text and no attachment.
\<close>

definition plain :: "string \<Rightarrow> bool" where
  "plain s = (CHR ''{'' \<notin> set s \<and> \<not> is_blank s)"

definition sends :: "string list \<Rightarrow> event list" where
  "sends items = map (\<lambda>i. SendMessage (normalise i) []) items"

section \<open>Properties\<close>

subsection \<open>Scopes\<close>

lemma scope_set_own [simp]:
  "k \<noteq> ''__proto__'' \<Longrightarrow> scope_set k v sc = own_set k v sc"
  by (simp add: scope_set_def)

lemma map_of_own_set:
  "map_of (own_set k v sc) k' = (if k' = k then Some v else map_of sc k')"
  by (induction sc) auto

lemma scope_get_own_set [simp]:
  "scope_get (own_set k v sc) k' = (if k' = k then v else scope_get sc k')"
  by (simp add: scope_get_def map_of_own_set)

lemma scope_get_set_other:
  "k' \<noteq> k \<Longrightarrow> scope_get (scope_set k v sc) k' = scope_get sc k'"
  by (simp add: scope_set_def scope_get_own_set)

lemma scope_get_set:
  "k' \<noteq> ''__proto__'' \<Longrightarrow>
     scope_get (scope_set k v sc) k' = (if k' = k then v else scope_get sc k')"
  by (cases "k = ''__proto__''") (simp_all add: scope_get_set_other scope_get_own_set)

lemma inherited_undefined [simp]:
  "inherited ''response'' = JUndefined" "inherited ''result'' = JUndefined"
  "inherited ''x'' = JUndefined" "inherited ''y'' = JUndefined"
  by code_simp+

lemma finish_checked_None [simp]:
  "finish_checked None result acc variables w =
     (case finish_node None result acc variables of
        (acc', variables') \<Rightarrow> Some (Inr (acc', variables', w)))"
  by (simp add: finish_checked_def replaces_prototype_def)

lemma finish_checked_other:
  "var \<noteq> Some ''__proto__'' \<Longrightarrow>
     finish_checked var result acc variables w =
       (case finish_node var result acc variables of
          (acc', variables') \<Rightarrow> Some (Inr (acc', variables', w)))"
  by (simp add: finish_checked_def replaces_prototype_def)

lemma is_blank_Nil: "is_blank []"
  by (simp add: is_blank_def)

subsection \<open>The dispatcher's default\<close>

lemma runCommand_other:
  assumes "command \<notin> set [''js'', ''jsdisplay'', ''jsd'', ''file'', ''writefile'',
                           ''followup'', ''every'', ''claude'']"
  shows "runCommand ev command variables arg param w =
           Inr (empty_result\<lparr>r_body := Some (JStr (command @ ''('' @ arg @ '')''))\<rparr>, w)"
  using assms by (simp add: runCommand_def)

lemma runCommand_followup:
  "runCommand ev ''followup'' variables arg param w = Inr (empty_result\<lparr>r_followup := Some [arg]\<rparr>, w)"
  by (simp add: runCommand_def)

lemma runCommand_every:
  "runCommand ev ''every'' variables arg param w = Inr (empty_result\<lparr>r_every := Some [arg]\<rparr>, w)"
  by (simp add: runCommand_def)

text \<open>
  Claim C9. A command whose name is none of \<open>import\<close>, \<open>js\<close>, \<open>jsdisplay\<close>, \<open>jsd\<close>, \<open>file\<close>,
  \<open>writefile\<close>, \<open>followup\<close>, \<open>every\<close> and \<open>claude\<close> never throws in \<open>runCommand\<close>: the result
  has the body \<open>command(arg)\<close> and no other key, and the world is unchanged.
\<close>

theorem runCommand_default:
  assumes "command \<notin> set [''import'', ''js'', ''jsdisplay'', ''jsd'', ''file'', ''writefile'',
                           ''followup'', ''every'', ''claude'']"
  shows "runCommand ev command variables arg param w =
           Inr (\<lparr>r_body = Some (JStr (command @ ''('' @ arg @ '')'')), r_value = None,
                 r_variables = None, r_attachments = None, r_every = None,
                 r_followup = None\<rparr>, w)"
  using assms runCommand_other [of command ev variables arg param w]
  by (simp add: empty_result_def)

theorem runCommand_default_witness:
  "''foo'' \<notin> set [''import'', ''js'', ''jsdisplay'', ''jsd'', ''file'', ''writefile'',
                   ''followup'', ''every'', ''claude''] \<and>
   runCommand demo_env ''foo'' [] ''x'' None demo_world =
     Inr (\<lparr>r_body = Some (JStr ''foo(x)''), r_value = None, r_variables = None,
           r_attachments = None, r_every = None, r_followup = None\<rparr>, demo_world)"
  using runCommand_default [of "''foo''" demo_env "[]" "''x''" None demo_world] by simp

subsection \<open>Reading a variable that is not bound\<close>

lemma parse_var_read_x:
  "parse ''{x}'' = Some (Inr [Text [], Node (Variable ''x''), Text []])"
  by code_simp

text \<open>
  Claim C2. The claim says that reading a variable that is not bound appends the empty
  string. The template \<^verbatim>\<open>{x}\<close> on the empty scope gives a body that holds the text
  \<open>undefined\<close>: \<^verbatim>\<open>promptText += variables[block.name]\<close> converts \<^verbatim>\<open>undefined\<close> to a string.
\<close>

theorem unbound_variable_read_appends_undefined:
  "getPrompt (Suc n) ev ''{x}'' [] w =
     Some (Inr (\<lparr>body = [CHR 0x0A] @ ''undefined'' @ [CHR 0x0A],
                 attachments = [], followup = [], every = []\<rparr>,
                [(''response'', JStr []), (''result'', JStr [])], w))"
  by (simp add: parse_var_read_x eval_elem_def eval_node_def finish_node_def empty_result_def
      empty_evaluation_def is_blank_Nil scope_get_def js_or_def normalise_def Let_def)

subsection \<open>Block tags that do not match\<close>

lemma parse_mismatch:
  "parse ''{#foo p}x{/bar}'' = Some (Inr [Text ''{#foo p}x{/bar}''])"
  by code_simp

lemma is_blank_mismatch: "\<not> is_blank ''{#foo p}x{/bar}''"
  by code_simp

lemma normalise_mismatch: "normalise ''{#foo p}x{/bar}'' = ''{#foo p}x{/bar}''"
  by code_simp

text \<open>
  Claim C1. The claim says that a block whose closing name differs from its opening name
  makes the evaluation fail. The template \<^verbatim>\<open>{#foo p}x{/bar}\<close> is evaluated without an
  error, to itself: \<open>RE_block\<close> ends in a back-reference to the opening name, so it matches
  no such block and the test in \<open>block_callback\<close> is never reached with two different names.
\<close>

theorem mismatched_block_is_plain_text:
  "getPrompt (Suc n) ev ''{#foo p}x{/bar}'' variables w =
     Some (Inr (\<lparr>body = ''{#foo p}x{/bar}'', attachments = [], followup = [], every = []\<rparr>,
                variables, w))"
  by (simp add: parse_mismatch eval_elem_def empty_evaluation_def is_blank_mismatch
      normalise_mismatch)

subsection \<open>An every directive inside another block\<close>

lemma parse_nested_every:
  "parse ''{#foo}{#every}a{/every}{/foo}'' =
     Some (Inr [Text [], Node (Block ''foo'' None None ''{#every}a{/every}''), Text []])"
  by code_simp

lemma parse_every_a:
  "parse ''{#every}a{/every}'' =
     Some (Inr [Text [], Node (Block ''every'' None None ''a''), Text []])"
  by code_simp

lemma getPrompt_every_a:
  "getPrompt (Suc n) ev ''{#every}a{/every}'' variables w =
     Some (Inr (\<lparr>body = [CHR 0x0A], attachments = [], followup = [], every = [''a'']\<rparr>,
       scope_set ''result'' (JStr []) (scope_set ''response'' (JStr []) variables), w))"
  by (simp add: parse_every_a eval_elem_def eval_node_def finish_node_def empty_result_def
      empty_evaluation_def is_blank_Nil runCommand_def js_or_def normalise_def Let_def)

text \<open>
  Claim C4. The claim says that the every-items of a nested result are merged into the outer
  result. The body of the block \<open>foo\<close> below queues the every-item \<open>a\<close>
  (\<open>getPrompt_every_a\<close>), and the outer result has no every-item: the branch for a block
  copies the attachments and the followups of the nested result and leaves out its
  every-items.
\<close>

theorem nested_every_is_dropped:
  "getPrompt (Suc (Suc n)) ev ''{#foo}{#every}a{/every}{/foo}'' [] w =
     Some (Inr (\<lparr>body = [CHR 0x0A] @ ''foo('' @ [CHR 0x0A] @ '')'' @ [CHR 0x0A],
                 attachments = [], followup = [], every = []\<rparr>,
                [(''response'', JStr (''foo('' @ [CHR 0x0A] @ '')'')),
                 (''result'', JStr (''foo('' @ [CHR 0x0A] @ '')''))], w))"
  by (subst getPrompt.simps(2))
     (simp add: parse_nested_every getPrompt_every_a eval_elem_def eval_node_def finish_node_def
      empty_result_def empty_evaluation_def is_blank_Nil runCommand_def js_or_def normalise_def Let_def
      del: getPrompt.simps)

subsection \<open>The assignments that close a node\<close>

lemma scope_get_object_assign:
  "k \<noteq> ''__proto__'' \<Longrightarrow>
     scope_get (object_assign sc ps) k =
       (case map_of (rev ps) k of None \<Rightarrow> scope_get sc k | Some v \<Rightarrow> v)"
  by (induction sc ps rule: object_assign.induct)
     (auto simp: scope_get_set map_add_def split: option.splits)

lemma finish_node_response_fresh:
  "scope_get (snd (finish_node var result acc sc)) ''response'' =
   scope_get (snd (finish_node var result acc sc')) ''response''"
  by (simp add: finish_node_def Let_def scope_get_set scope_get_object_assign
      split: option.splits varsref.splits)

lemma finish_node_result_fresh:
  "scope_get (snd (finish_node var result acc sc)) ''result'' =
   scope_get (snd (finish_node var result acc sc')) ''result''"
  by (simp add: finish_node_def Let_def scope_get_set scope_get_object_assign
      split: option.splits varsref.splits)

lemma eval_node_finishes:
  assumes "eval_node ev rec block (acc, variables, w) = Some (Inr (acc', variables', w'))"
  shows "\<exists>var result acc0 sc0. finish_node var result acc0 sc0 = (acc', variables')"
  using assms
  by (fastforce simp: eval_node_def finish_checked_def Let_def
      split: node.splits option.splits sum.splits prod.splits if_splits jsval.splits)

lemma finish_node_empty_result:
  "finish_node None empty_result acc sc =
     (acc, scope_set ''result'' (JStr []) (scope_set ''response'' (JStr []) sc))"
  by (simp add: finish_node_def empty_result_def Let_def js_or_def)

text \<open>
  Claim C10. Every node that is processed without an error, a bare variable read or write
  included, ends in the assignments of \<open>finish_node\<close>, and the values that \<open>response\<close> and
  \<open>result\<close> hold afterwards are the same whatever the scope held before: both entries are
  overwritten. For a variable read and a variable write both are set to the empty string.
\<close>

theorem variable_nodes_clobber_response_and_result:
  "(block = Variable name \<or> block = VariableSet name val \<longrightarrow>
      (\<exists>acc' variables'.
         eval_node ev rec block (acc, variables, w) = Some (Inr (acc', variables', w)) \<and>
         scope_get variables' ''response'' = JStr [] \<and>
         scope_get variables' ''result'' = JStr [])) \<and>
   (eval_node ev rec block (acc, variables, w) = Some (Inr (acc1, variables1, w1)) \<longrightarrow>
      (\<exists>var result acc0 sc0.
         finish_node var result acc0 sc0 = (acc1, variables1) \<and>
         (\<forall>sc. scope_get (snd (finish_node var result acc0 sc)) ''response'' =
                 scope_get variables1 ''response'' \<and>
               scope_get (snd (finish_node var result acc0 sc)) ''result'' =
                 scope_get variables1 ''result'')))"
proof (intro conjI impI)
  assume "block = Variable name \<or> block = VariableSet name val"
  then show "\<exists>acc' variables'.
         eval_node ev rec block (acc, variables, w) = Some (Inr (acc', variables', w)) \<and>
         scope_get variables' ''response'' = JStr [] \<and>
         scope_get variables' ''result'' = JStr []"
    by (auto simp: eval_node_def finish_node_empty_result scope_get_set)
next
  assume "eval_node ev rec block (acc, variables, w) = Some (Inr (acc1, variables1, w1))"
  then obtain var result acc0 sc0 where f: "finish_node var result acc0 sc0 = (acc1, variables1)"
    using eval_node_finishes by blast
  have "\<forall>sc. scope_get (snd (finish_node var result acc0 sc)) ''response'' =
                 scope_get variables1 ''response'' \<and>
               scope_get (snd (finish_node var result acc0 sc)) ''result'' =
                 scope_get variables1 ''result''"
    using f finish_node_response_fresh [of var result acc0 _ sc0]
      finish_node_result_fresh [of var result acc0 _ sc0]
    by simp
  with f show "\<exists>var result acc0 sc0.
         finish_node var result acc0 sc0 = (acc1, variables1) \<and>
         (\<forall>sc. scope_get (snd (finish_node var result acc0 sc)) ''response'' =
                 scope_get variables1 ''response'' \<and>
               scope_get (snd (finish_node var result acc0 sc)) ''result'' =
                 scope_get variables1 ''result'')"
    by blast
qed

subsection \<open>Deferred commands\<close>

lemma eval_node_deferred_block:
  assumes "command \<in> set [''followup'', ''every'']"
  shows "eval_node ev rec (Block command param var text) (acc, variables, w) =
     Some (Inr (acc\<lparr>every := every acc @ (if command = ''every'' then [text] else []),
                    followup := followup acc @ (if command = ''followup'' then [text] else [])\<rparr>,
                snd (finish_node var empty_result acc variables), w))"
proof -
  have "command = ''followup'' \<or> command = ''every''"
    using assms by simp
  then show ?thesis
    by (elim disjE)
       (simp_all add: eval_node_def runCommand_followup runCommand_every finish_checked_def
        replaces_prototype_def finish_node_def scope_get_own_set js_or_def
        Let_def empty_result_def split: option.splits)
qed

lemma eval_node_deferred_inline:
  assumes "command \<in> set [''followup'', ''every'']"
    and "parse_value (Some s) = Inr (Some t)"
  shows "eval_node ev rec (Command command (Some s) var) (acc, variables, w) =
     Some (Inr (acc\<lparr>every := every acc @ (if command = ''every'' then [simpleVarReplace variables t] else []),
                    followup := followup acc @ (if command = ''followup'' then [simpleVarReplace variables t] else [])\<rparr>,
                snd (finish_node var empty_result acc variables), w))"
proof -
  have "command = ''followup'' \<or> command = ''every''"
    using assms by simp
  then show ?thesis
    using assms(2)
    by (elim disjE)
       (simp_all add: eval_node_def runCommand_followup runCommand_every finish_checked_def
        replaces_prototype_def finish_node_def scope_get_own_set js_or_def
        Let_def empty_result_def truthy_str_def split: option.splits)
qed

subsection \<open>Texts without directives\<close>

lemma rmatch_Then_Chr_other:
  assumes "\<And>xs. s \<noteq> c # xs"
  shows "rmatch (Then (Chr c) r) cs s = []"
  using assms by (cases s) auto

lemma match_here_no_brace:
  assumes "re = Then (Chr CHR ''{'') r" and "\<And>xs. s \<noteq> CHR ''{'' # xs"
  shows "match_here re s = None"
  using assms by (simp add: match_here_def rmatch_Then_Chr_other del: rmatch.simps)

lemma scan_no_brace:
  assumes "re = Then (Chr CHR ''{'') r" and "CHR ''{'' \<notin> set s"
  shows "scan re 0 acc s = Some [Lit (rev acc @ s)]"
  using assms(2)
proof (induction s arbitrary: acc)
  case Nil
  then show ?case
    using match_here_no_brace [OF assms(1), of "[]"] by simp
next
  case (Cons x xs)
  have "match_here re (x # xs) = None"
    using Cons.prems match_here_no_brace [OF assms(1), of "x # xs"] by auto
  then show ?case
    using Cons by simp
qed

lemma findReplace_no_brace:
  assumes "re = Then (Chr CHR ''{'') r" and "CHR ''{'' \<notin> set s"
  shows "findReplace re cb [Text s] = Some (Inr [Text s])"
  using scan_no_brace [OF assms, of "[]"] by simp

lemma RE_forms:
  "\<exists>r. RE_block = Then (Chr CHR ''{'') r"
  "\<exists>r. RE_inline_command = Then (Chr CHR ''{'') r"
  "\<exists>r. RE_var_write = Then (Chr CHR ''{'') r"
  "\<exists>r. RE_var_read = Then (Chr CHR ''{'') r"
  by (simp_all add: RE_block_def RE_inline_command_def RE_var_write_def RE_var_read_def)

lemma parse_no_brace:
  assumes "CHR ''{'' \<notin> set s"
  shows "parse s = Some (Inr [Text s])"
proof -
  obtain r1 r2 r3 r4 where
    "RE_block = Then (Chr CHR ''{'') r1" "RE_inline_command = Then (Chr CHR ''{'') r2"
    "RE_var_write = Then (Chr CHR ''{'') r3" "RE_var_read = Then (Chr CHR ''{'') r4"
    using RE_forms by blast
  then show ?thesis
    using assms by (simp add: parse_def findReplace_no_brace del: findReplace.simps)
qed

lemma is_blank_collapse: "is_blank (collapse c s) = is_blank s"
  by (induction c s rule: collapse.induct) (auto simp: is_blank_def)

lemma is_blank_normalise: "is_blank (normalise s) = is_blank s"
  by (simp add: normalise_def is_blank_collapse)

lemma getPrompt_no_brace:
  assumes "CHR ''{'' \<notin> set s" and "\<not> is_blank s"
  shows "getPrompt (Suc n) ev s variables w =
           Some (Inr (\<lparr>body = normalise s, attachments = [], followup = [], every = []\<rparr>,
                      variables, w))"
  using assms by (simp add: parse_no_brace eval_elem_def empty_evaluation_def)

lemma request_ok:
  assumes "\<And>log. status_done (backend ev log) = Inr (backend ev log)"
  shows "request ev r w = Inr (backend ev (net w @ [r]), w\<lparr>net := net w @ [r]\<rparr>)"
  using assms by (simp add: request_def Let_def)

lemma runEveries_loop_plain:
  assumes ok: "\<And>log. status_done (backend ev log) = Inr (backend ev log)"
    and "list_all plain js"
  shows "\<exists>variables'. runEveries_loop (Suc n) ev True js variables w =
           Some (Inr (variables', w\<lparr>net := net w @ sends js\<rparr>))"
  using assms(2)
proof (induction js arbitrary: variables w)
  case Nil
  then show ?case by (simp add: sends_def)
next
  case (Cons j js)
  then have js: "list_all plain js" and "plain j"
    by simp_all
  then have j: "CHR ''{'' \<notin> set j" "\<not> is_blank j"
    by (simp_all add: plain_def)
  obtain variables' where
    "runEveries_loop (Suc n) ev True js
        (scope_set ''claude_response'' (backend ev (net w @ [SendMessage (normalise j) []])) variables)
        (w\<lparr>net := net w @ [SendMessage (normalise j) []]\<rparr>) =
     Some (Inr (variables', w\<lparr>net := net w @ [SendMessage (normalise j) []]\<rparr>
                              \<lparr>net := net (w\<lparr>net := net w @ [SendMessage (normalise j) []]\<rparr>) @ sends js\<rparr>))"
    using Cons.IH [OF js] by blast
  then show ?case
    using j
    by (simp add: getPrompt_no_brace is_blank_normalise sendMessage_def request_ok [OF ok]
        sends_def del: getPrompt.simps)
qed

lemma followup_loop_plain:
  assumes ok: "\<And>log. status_done (backend ev log) = Inr (backend ev log)"
    and "list_all plain (drop idx (p_followup prompt))"
    and "p_every prompt = Some evs" and "list_all plain evs"
    and "length (p_followup prompt) - idx \<le> k"
  shows "\<exists>prompt'. followup_loop (Suc n) ev True k idx (prompt, w) =
           Some (Inr (prompt', w\<lparr>net := net w @
              concat (map (\<lambda>i. SendMessage (normalise i) [] # sends evs) (drop idx (p_followup prompt)))\<rparr>)) \<and>
           p_followup prompt' = p_followup prompt \<and> p_every prompt' = Some evs"
  using assms(2,3,5)
proof (induction k arbitrary: idx prompt w)
  case 0
  then show ?case by simp
next
  case (Suc k)
  show ?case
  proof (cases "idx < length (p_followup prompt)")
    case False
    then show ?thesis using Suc.prems by simp
  next
    case True
    define i where "i = p_followup prompt ! idx"
    have d: "drop idx (p_followup prompt) = i # drop (Suc idx) (p_followup prompt)"
      using True by (simp add: i_def Cons_nth_drop_Suc)
    with Suc.prems have "plain i"
      and rest: "list_all plain (drop (Suc idx) (p_followup prompt))"
      by simp_all
    then have i: "CHR ''{'' \<notin> set i" "\<not> is_blank i"
      by (simp_all add: plain_def)
    define w1 where "w1 = w\<lparr>net := net w @ [SendMessage (normalise i) []]\<rparr>"
    define a where "a = backend ev (net w @ [SendMessage (normalise i) []])"
    obtain variables' where ev1:
      "runEveries_loop (Suc n) ev True evs (scope_set ''claude_response'' a (p_variables prompt)) w1 =
         Some (Inr (variables', w1\<lparr>net := net w1 @ sends evs\<rparr>))"
      using runEveries_loop_plain [OF ok \<open>list_all plain evs\<close>] by blast
    define prompt1 where "prompt1 = prompt\<lparr>p_variables := variables'\<rparr>"
    have step: "followup_step (Suc n) ev True i (prompt, w) =
                  Some (Inr (prompt1, w1\<lparr>net := net w1 @ sends evs\<rparr>))"
      using i Suc.prems(2) ev1
      by (simp add: followup_step_def getPrompt_no_brace is_blank_normalise sendMessage_def
          request_ok [OF ok] runEveries_def w1_def a_def prompt1_def Let_def
          del: getPrompt.simps)
    have p1: "p_followup prompt1 = p_followup prompt" "p_every prompt1 = Some evs"
      using Suc.prems(2) by (simp_all add: prompt1_def)
    obtain prompt' where loop:
      "followup_loop (Suc n) ev True k (Suc idx) (prompt1, w1\<lparr>net := net w1 @ sends evs\<rparr>) =
         Some (Inr (prompt', (w1\<lparr>net := net w1 @ sends evs\<rparr>)\<lparr>net := net (w1\<lparr>net := net w1 @ sends evs\<rparr>) @
            concat (map (\<lambda>i. SendMessage (normalise i) [] # sends evs) (drop (Suc idx) (p_followup prompt1)))\<rparr>))"
      "p_followup prompt' = p_followup prompt1" "p_every prompt' = Some evs"
    proof -
      have le: "length (p_followup prompt1) - Suc idx \<le> k"
        using Suc.prems(3) p1 by simp
      have rest1: "list_all plain (drop (Suc idx) (p_followup prompt1))"
        using rest p1 by simp
      show ?thesis
        using Suc.IH [OF rest1 p1(2) le, of "w1\<lparr>net := net w1 @ sends evs\<rparr>"] that
        by auto
    qed
    show ?thesis
      using True step loop p1 d
      by (simp add: i_def [symmetric] w1_def)
  qed
qed

subsection \<open>Concrete runs\<close>

lemma demo_variable_read:
  "eval_node demo_env (getPrompt 0 demo_env) (Variable ''x'')
     (empty_evaluation, [(''response'', JStr ''old''), (''result'', JStr ''old'')], demo_world) =
   Some (Inr (\<lparr>body = ''undefined'', attachments = [], followup = [], every = []\<rparr>,
              [(''response'', JStr []), (''result'', JStr [])], demo_world))"
  by (simp add: eval_node_def finish_node_empty_result empty_evaluation_def scope_get_def)

theorem variable_nodes_clobber_witness:
  "(\<exists>acc' variables'.
      eval_node demo_env (getPrompt 0 demo_env) (Variable ''x'')
        (empty_evaluation, [(''response'', JStr ''old''), (''result'', JStr ''old'')], demo_world) =
        Some (Inr (acc', variables', demo_world)) \<and>
      scope_get variables' ''response'' = JStr [] \<and>
      scope_get variables' ''result'' = JStr []) \<and>
   (\<exists>var result acc0 sc0.
      finish_node var result acc0 sc0 =
        (\<lparr>body = ''undefined'', attachments = [], followup = [], every = []\<rparr>,
         [(''response'', JStr []), (''result'', JStr [])]) \<and>
      (\<forall>sc. scope_get (snd (finish_node var result acc0 sc)) ''response'' =
              scope_get [(''response'', JStr []), (''result'', JStr [])] ''response'' \<and>
            scope_get (snd (finish_node var result acc0 sc)) ''result'' =
              scope_get [(''response'', JStr []), (''result'', JStr [])] ''result''))"
  using variable_nodes_clobber_response_and_result
    [where block = "Variable ''x''" and name = "''x''" and ev = demo_env
       and rec = "getPrompt 0 demo_env" and acc = empty_evaluation
       and variables = "[(''response'', JStr ''old''), (''result'', JStr ''old'')]"
       and w = demo_world
       and ?acc1.0 = "\<lparr>body = ''undefined'', attachments = [], followup = [], every = []\<rparr>"
       and ?variables1.0 = "[(''response'', JStr []), (''result'', JStr [])]"
       and ?w1.0 = demo_world]
    demo_variable_read
  by (simp add: scope_get_def)

text \<open>
  Claim C5 as it was stated fails on a block: the block \<open>foo\<close> with the bound variable \<open>x\<close>
  adds the text \<open>foo(b)\<close> to the body.
\<close>

theorem bound_block_still_echoes:
  "getPrompt 2 demo_env ''{#foo x=p}b{/foo}'' [] demo_world =
     Some (Inr (\<lparr>body = [CHR 0x0A] @ ''foo(b)'' @ [CHR 0x0A], attachments = [], followup = [],
                 every = []\<rparr>,
                [(''response'', JStr ''foo(b)''), (''result'', JStr ''foo(b)''),
                 (''x'', JStr ''foo(b)'')], demo_world))"
  by code_simp

text \<open>
  Claim C3 as it was stated fails on an inline command: the inline \<open>followup\<close> with the input
  \<^verbatim>\<open>"hi {name}"\<close> queues \<open>hi Bob\<close>, the text after the substitution of \<open>name\<close> from the scope
  at definition time.
\<close>

theorem inline_followup_substitutes_at_definition:
  "eval_node demo_env (getPrompt 0 demo_env)
     (Command ''followup'' (Some (CHR 0x22 # ''hi {name}'' @ [CHR 0x22])) None)
     (empty_evaluation, [(''name'', JStr ''Bob'')], demo_world) =
   Some (Inr (\<lparr>body = [], attachments = [], followup = [''hi Bob''], every = []\<rparr>,
              [(''name'', JStr ''Bob''), (''response'', JStr []), (''result'', JStr [])],
              demo_world))"
  by code_simp

subsection \<open>The blank prompt\<close>

lemma status_done_get_prop:
  assumes "status_done a = Inr b"
  shows "\<exists>c. get_prop a ''completion'' = Inr c"
  using assms by (auto simp: status_done_def split: sum.splits if_splits)

lemma demo_backend_ok: "status_done (backend demo_env log) = Inr (backend demo_env log)"
  by (simp add: demo_env_def status_done_def)

text \<open>
  Claim C8. A prompt with a blank body and with both queues empty makes \<open>runPrompt\<close> return,
  for every bound on the rounds (none are needed), without a request to open a conversation
  or to send a message: the log of requests grows by nothing, or by the \<open>Init\<close> of
  \<^verbatim>\<open>claude.init()\<close> when the client was not ready. Unless \<^verbatim>\<open>dontRespond\<close> is set the prompt
  comes back as it was.
\<close>

theorem blank_prompt_opens_no_conversation:
  assumes "is_blank (p_body prompt)" and "p_followup prompt = []" and "p_every prompt = Some []"
  shows "\<exists>prompt'. runPrompt n ev prompt w =
           Some (Inr (Some prompt',
                      w\<lparr>net := net w @ (if ready w then [] else [Init]), ready := True\<rparr>)) \<and>
           (\<not> p_dontRespond prompt \<longrightarrow> prompt' = prompt)"
proof -
  have w: "ready w \<Longrightarrow> w\<lparr>net := net w, ready := True\<rparr> = w"
    by simp
  have l: "\<And>st. p_followup (fst st) = [] \<Longrightarrow> followup_loop n ev c n 0 st = Some (Inr st)" for c
    by (cases n) simp_all
  show ?thesis
    using assms
    by (cases "ready w")
       (auto simp: runPrompt_def first_exchange_def runEveries_def truthy_array_def Let_def l)
qed

theorem blank_prompt_witness:
  "is_blank (p_body demo_blank_prompt) \<and> p_followup demo_blank_prompt = [] \<and>
   p_every demo_blank_prompt = Some [] \<and>
   runPrompt 0 demo_env demo_blank_prompt demo_world = Some (Inr (Some demo_blank_prompt, demo_world))"
proof -
  have h: "is_blank (p_body demo_blank_prompt)" "p_followup demo_blank_prompt = []"
    "p_every demo_blank_prompt = Some []" "\<not> p_dontRespond demo_blank_prompt"
    by (simp_all add: demo_blank_prompt_def is_blank_def is_space_def)
  have w: "demo_world\<lparr>net := net demo_world @ (if ready demo_world then [] else [Init]),
             ready := True\<rparr> = demo_world"
    by (simp add: demo_world_def)
  show ?thesis
    using blank_prompt_opens_no_conversation [OF h(1,2,3), of 0 demo_env demo_world] h w
    by auto
qed

subsection \<open>Runs on texts without directives\<close>

lemma runPrompt_plain:
  assumes ok: "\<And>log. status_done (backend ev log) = Inr (backend ev log)"
    and "\<not> p_dontRespond prompt" and "\<not> is_blank (p_body prompt)"
    and "p_every prompt = Some evs" and "list_all plain evs"
    and "list_all plain (p_followup prompt)"
    and "length (p_followup prompt) \<le> Suc n"
  shows "\<exists>prompt'. runPrompt (Suc n) ev prompt w =
           Some (Inr (Some prompt',
             w\<lparr>net := net w @ (if ready w then [] else [Init]) @
                   [StartConversation (p_body prompt) (p_attachments prompt)] @ sends evs @
                   concat (map (\<lambda>i. SendMessage (normalise i) [] # sends evs) (p_followup prompt)),
               ready := True\<rparr>))"
proof -
  define w1 where "w1 = (if \<not> ready w then w\<lparr>net := net w @ [Init], ready := True\<rparr> else w)"
  define r where "r = StartConversation (p_body prompt) (p_attachments prompt)"
  define a where "a = backend ev (net w1 @ [r])"
  define w2 where "w2 = w1\<lparr>net := net w1 @ [r]\<rparr>"
  obtain c where c: "get_prop a ''completion'' = Inr c"
    using status_done_get_prop [of a a] ok by (auto simp: a_def)
  define prompt1 where "prompt1 = prompt\<lparr>p_variables :=
        scope_set ''response'' c (scope_set ''claude_response'' a (p_variables prompt)),
      p_conversation := Some Conversation\<rparr>"
  have fe: "first_exchange ev prompt w1 = Inr (prompt1, True, w2)"
    using assms(2,3) c
    by (simp add: first_exchange_def request_ok [OF ok] r_def a_def w2_def prompt1_def)
  obtain variables' where re:
    "runEveries_loop (Suc n) ev True evs (p_variables prompt1) w2 =
       Some (Inr (variables', w2\<lparr>net := net w2 @ sends evs\<rparr>))"
    using runEveries_loop_plain [OF ok assms(5)] by blast
  define prompt2 where "prompt2 = prompt1\<lparr>p_variables := variables'\<rparr>"
  define w3 where "w3 = w2\<lparr>net := net w2 @ sends evs\<rparr>"
  have p2: "p_followup prompt2 = p_followup prompt" "p_every prompt2 = Some evs"
    using assms(4) by (simp_all add: prompt2_def prompt1_def)
  have "list_all plain (drop 0 (p_followup prompt2))" "length (p_followup prompt2) - 0 \<le> Suc n"
    using assms(6,7) p2 by simp_all
  from followup_loop_plain [OF ok this(1) p2(2) assms(5) this(2), of n w3]
  obtain prompt' where fl:
    "followup_loop (Suc n) ev True (Suc n) 0 (prompt2, w3) =
       Some (Inr (prompt', w3\<lparr>net := net w3 @
          concat (map (\<lambda>i. SendMessage (normalise i) [] # sends evs) (p_followup prompt))\<rparr>))"
    using p2 by auto
  have e1: "p_every prompt1 = Some evs"
    using assms(4) by (simp add: prompt1_def)
  have run: "runPrompt (Suc n) ev prompt w = Some (Inr (Some prompt', w3\<lparr>net := net w3 @
          concat (map (\<lambda>i. SendMessage (normalise i) [] # sends evs) (p_followup prompt))\<rparr>))"
    using assms(3) fe re fl e1
    by (simp add: runPrompt_def Let_def w1_def [symmetric] runEveries_def prompt2_def w3_def
        del: followup_loop.simps runEveries_loop.simps)
  have "w3\<lparr>net := net w3 @
          concat (map (\<lambda>i. SendMessage (normalise i) [] # sends evs) (p_followup prompt))\<rparr> =
        w\<lparr>net := net w @ (if ready w then [] else [Init]) @
                   [StartConversation (p_body prompt) (p_attachments prompt)] @ sends evs @
                   concat (map (\<lambda>i. SendMessage (normalise i) [] # sends evs) (p_followup prompt)),
               ready := True\<rparr>"
    by (simp add: w3_def w2_def w1_def r_def)
  with run show ?thesis by simp
qed

subsection \<open>The order of the followups in the queue\<close>

lemma eval_elems_append:
  "eval_elems ev rec (xs @ ys) st =
     (case eval_elems ev rec xs st of
        None \<Rightarrow> None
      | Some (Inl e) \<Rightarrow> Some (Inl e)
      | Some (Inr st1) \<Rightarrow> eval_elems ev rec ys st1)"
  by (induction xs arbitrary: st) (auto split: option.splits sum.splits)

lemma finish_node_followup:
  "followup (fst (finish_node var result acc sc)) =
     followup acc @ (case r_followup result of None \<Rightarrow> [] | Some xs \<Rightarrow> xs)"
  by (simp add: finish_node_def Let_def)

lemma eval_node_followup_grows:
  assumes "eval_node ev rec block (acc, variables, w) = Some (Inr (acc', variables', w'))"
  shows "\<exists>q. followup acc' = followup acc @ q"
proof -
  have "\<exists>var result acc0 sc0 q0. finish_node var result acc0 sc0 = (acc', variables') \<and>
          followup acc0 = followup acc @ q0"
    using assms
    by (fastforce simp: eval_node_def finish_checked_def Let_def
        split: node.splits option.splits sum.splits prod.splits if_splits jsval.splits)
  then obtain var result acc0 sc0 q0 where
    f: "finish_node var result acc0 sc0 = (acc', variables')" and q: "followup acc0 = followup acc @ q0"
    by blast
  have "followup acc' = followup acc0 @ (case r_followup result of None \<Rightarrow> [] | Some xs \<Rightarrow> xs)"
    using finish_node_followup [of var result acc0 sc0] f by simp
  with q show ?thesis by simp
qed

lemma eval_elem_followup_grows:
  assumes "eval_elem ev rec block st = Some (Inr st')"
  shows "\<exists>q. followup (fst st') = followup (fst st) @ q"
proof (cases block)
  case (Text t)
  then show ?thesis
    using assms by (auto simp: eval_elem_def split: prod.splits)
next
  case (Node n)
  obtain acc variables w where st: "st = (acc, variables, w)"
    by (cases st) auto
  obtain acc' variables' w' where st': "st' = (acc', variables', w')"
    by (cases st') auto
  show ?thesis
    using assms Node st st' eval_node_followup_grows [of ev rec n acc variables w acc' variables' w']
    by (simp add: eval_elem_def)
qed

lemma eval_elems_followup_grows:
  assumes "eval_elems ev rec out st = Some (Inr st')"
  shows "\<exists>q. followup (fst st') = followup (fst st) @ q"
  using assms
proof (induction out arbitrary: st)
  case Nil
  then show ?case by simp
next
  case (Cons block out)
  then obtain st1 where s1: "eval_elem ev rec block st = Some (Inr st1)"
    and s2: "eval_elems ev rec out st1 = Some (Inr st')"
    by (auto split: option.splits sum.splits)
  obtain q1 q2 where "followup (fst st1) = followup (fst st) @ q1"
    "followup (fst st') = followup (fst st1) @ q2"
    using eval_elem_followup_grows [OF s1] Cons.IH [OF s2] by blast
  then show ?case by simp
qed

lemma eval_elems_followup_block:
  assumes "eval_elems ev rec (Node (Block ''followup'' param var raw) # out) st = Some (Inr st')"
  shows "\<exists>q. followup (fst st') = followup (fst st) @ raw # q"
proof -
  obtain acc variables w where st: "st = (acc, variables, w)"
    by (cases st) auto
  have "eval_elem ev rec (Node (Block ''followup'' param var raw)) st =
          Some (Inr (acc\<lparr>every := every acc @ [], followup := followup acc @ [raw]\<rparr>,
                     snd (finish_node var empty_result acc variables), w))"
    using eval_node_deferred_block [of "''followup''" ev rec param var raw acc variables w] st
    by (simp add: eval_elem_def)
  then have "eval_elems ev rec out
               (acc\<lparr>every := every acc @ [], followup := followup acc @ [raw]\<rparr>,
                snd (finish_node var empty_result acc variables), w) = Some (Inr st')"
    using assms by simp
  from eval_elems_followup_grows [OF this] st show ?thesis
    by auto
qed

text \<open>
  In any sequence of elements, every followup block adds its body at the end of the queue:
  of two followup blocks the earlier one stands earlier in the queue, whatever is evaluated
  before, between and after them.
\<close>

lemma followups_in_document_order:
  assumes "eval_elems ev rec
             (xs @ Node (Block ''followup'' p1 v1 a) # ys @ Node (Block ''followup'' p2 v2 b) # zs) st =
           Some (Inr st')"
  shows "\<exists>q0 q1 q2. followup (fst st') = followup (fst st) @ q0 @ a # q1 @ b # q2"
proof -
  obtain s1 where x: "eval_elems ev rec xs st = Some (Inr s1)"
    and r1: "eval_elems ev rec (Node (Block ''followup'' p1 v1 a) # ys @ Node (Block ''followup'' p2 v2 b) # zs) s1 =
               Some (Inr st')"
    using assms by (auto simp: eval_elems_append split: option.splits sum.splits)
  have r1': "eval_elems ev rec ((Node (Block ''followup'' p1 v1 a) # ys) @ Node (Block ''followup'' p2 v2 b) # zs) s1 =
               Some (Inr st')"
    using r1 by simp
  obtain s2 where y: "eval_elems ev rec (Node (Block ''followup'' p1 v1 a) # ys) s1 = Some (Inr s2)"
    and r2: "eval_elems ev rec (Node (Block ''followup'' p2 v2 b) # zs) s2 = Some (Inr st')"
    using r1' unfolding eval_elems_append by (auto split: option.splits sum.splits)
  obtain q0 where "followup (fst s1) = followup (fst st) @ q0"
    using eval_elems_followup_grows [OF x] by blast
  moreover obtain q1 where "followup (fst s2) = followup (fst s1) @ a # q1"
    using eval_elems_followup_block [OF y] by blast
  moreover obtain q2 where "followup (fst st') = followup (fst s2) @ b # q2"
    using eval_elems_followup_block [OF r2] by blast
  ultimately have "followup (fst st') = followup (fst st) @ q0 @ a # q1 @ b # q2"
    by simp
  then show ?thesis by blast
qed

lemma parse_two_followups:
  "parse ''{#followup}a{/followup}{#followup}b{/followup}'' =
     Some (Inr [Text [], Node (Block ''followup'' None None ''a''), Text [],
                Node (Block ''followup'' None None ''b''), Text []])"
  by code_simp

lemma getPrompt_two_followups:
  "\<exists>variables'. getPrompt (Suc n) ev ''{#followup}a{/followup}{#followup}b{/followup}'' variables w =
     Some (Inr (\<lparr>body = [CHR 0x0A], attachments = [], followup = [''a'', ''b''], every = []\<rparr>,
                variables', w))"
  by (simp add: parse_two_followups eval_elem_def eval_node_deferred_block empty_evaluation_def
      is_blank_Nil normalise_def)

subsection \<open>The steps of the orchestrator\<close>

lemma request_sent:
  assumes "status_done (backend ev (net w @ [r])) = Inr a"
  shows "request ev r w = Inr (a, w\<lparr>net := net w @ [r]\<rparr>)"
  using assms by (simp add: request_def Let_def)

lemma runEveries_loop_blank:
  assumes "getPrompt n ev j variables w = Some (Inr (thing, variables1, w1))"
    and "is_blank (body thing)"
  shows "runEveries_loop n ev convo (j # js) variables w = runEveries_loop n ev convo js variables1 w1"
  using assms by simp

lemma runEveries_loop_sent:
  assumes "getPrompt n ev j variables w = Some (Inr (thing, variables1, w1))"
    and "\<not> is_blank (body thing)"
    and "status_done (backend ev (net w1 @ [SendMessage (body thing) (attachments thing)])) = Inr a"
  shows "runEveries_loop n ev True (j # js) variables w =
           runEveries_loop n ev True js (scope_set ''claude_response'' a variables1)
             (w1\<lparr>net := net w1 @ [SendMessage (body thing) (attachments thing)]\<rparr>)"
  using assms by (simp add: sendMessage_def request_sent)

lemma runEveries_loop_append:
  "runEveries_loop n ev convo (js @ js') variables w =
     (case runEveries_loop n ev convo js variables w of
        None \<Rightarrow> None
      | Some (Inl e) \<Rightarrow> Some (Inl e)
      | Some (Inr (variables1, w1)) \<Rightarrow> runEveries_loop n ev convo js' variables1 w1)"
proof (induction js arbitrary: variables w)
  case Nil
  then show ?case by simp
next
  case (Cons j js)
  show ?case
  proof (cases "getPrompt n ev j variables w")
    case None
    then show ?thesis by simp
  next
    case (Some r)
    show ?thesis
    proof (cases r)
      case (Inl e)
      with Some show ?thesis by simp
    next
      case (Inr st)
      obtain thing variables1 w1 where st: "st = (thing, variables1, w1)"
        by (cases st)
      show ?thesis
      proof (cases "is_blank (body thing)")
        case True
        with Some Inr st Cons.IH show ?thesis by simp
      next
        case False
        show ?thesis
        proof (cases "sendMessage ev convo (body thing) (attachments thing) w1")
          case (Inl e)
          with Some \<open>r = Inr st\<close> st False show ?thesis by simp
        next
          case (Inr p)
          obtain a w2 where "p = (a, w2)"
            by (cases p)
          with Some \<open>r = Inr st\<close> st False Inr Cons.IH show ?thesis by simp
        qed
      qed
    qed
  qed
qed

lemma followup_step_blank:
  assumes "getPrompt n ev i (p_variables prompt) w = Some (Inr (fu, variables1, w1))"
    and "p_every prompt = Some evs" and "is_blank (body fu)"
  shows "followup_step n ev convo i (prompt, w) =
           Some (Inr (prompt\<lparr>p_variables := variables1,
                             p_followup := p_followup prompt @ followup fu,
                             p_every := Some (evs @ every fu)\<rparr>, w1))"
  using assms by (simp add: followup_step_def Let_def)

lemma followup_step_sent:
  assumes "getPrompt n ev i (p_variables prompt) w = Some (Inr (fu, variables1, w1))"
    and "p_every prompt = Some evs" and "\<not> is_blank (body fu)"
    and "status_done (backend ev (net w1 @ [SendMessage (body fu) (attachments fu)])) = Inr a"
  shows "followup_step n ev True i (prompt, w) =
           (case runEveries_loop n ev True (evs @ every fu)
                   (scope_set ''claude_response'' a variables1)
                   (w1\<lparr>net := net w1 @ [SendMessage (body fu) (attachments fu)]\<rparr>) of
              None \<Rightarrow> None
            | Some (Inl e) \<Rightarrow> Some (Inl e)
            | Some (Inr (variables2, w3)) \<Rightarrow>
                Some (Inr (prompt\<lparr>p_variables := variables2,
                                  p_followup := p_followup prompt @ followup fu,
                                  p_every := Some (evs @ every fu)\<rparr>, w3)))"
  using assms
  by (simp add: followup_step_def Let_def sendMessage_def request_sent runEveries_def
      split: option.splits sum.splits)

lemma first_exchange_answered:
  assumes "\<not> is_blank (p_body prompt)" and "\<not> p_dontRespond prompt"
    and "status_done (backend ev (net w @ [StartConversation (p_body prompt) (p_attachments prompt)])) = Inr a"
    and "get_prop a ''completion'' = Inr c"
  shows "first_exchange ev prompt w =
           Inr (prompt\<lparr>p_variables := scope_set ''response'' c
                                          (scope_set ''claude_response'' a (p_variables prompt)),
                       p_conversation := Some Conversation\<rparr>, True,
                w\<lparr>net := net w @ [StartConversation (p_body prompt) (p_attachments prompt)]\<rparr>)"
  using assms by (simp add: first_exchange_def request_sent)

lemma runPrompt_answered:
  assumes "\<not> is_blank (p_body prompt)" and "\<not> p_dontRespond prompt"
    and "p_every prompt = Some evs"
    and "wi = (if \<not> ready w then w\<lparr>net := net w @ [Init], ready := True\<rparr> else w)"
    and "status_done (backend ev (net wi @ [StartConversation (p_body prompt) (p_attachments prompt)])) = Inr a"
    and "get_prop a ''completion'' = Inr c"
  shows "runPrompt n ev prompt w =
           (case runEveries_loop n ev True evs
                   (scope_set ''response'' c (scope_set ''claude_response'' a (p_variables prompt)))
                   (wi\<lparr>net := net wi @ [StartConversation (p_body prompt) (p_attachments prompt)]\<rparr>) of
              None \<Rightarrow> None
            | Some (Inl e) \<Rightarrow> Some (Inl e)
            | Some (Inr (variables1, w1)) \<Rightarrow>
                (case followup_loop n ev True n 0
                        (prompt\<lparr>p_conversation := Some Conversation, p_variables := variables1\<rparr>, w1) of
                   None \<Rightarrow> None
                 | Some (Inl e) \<Rightarrow> Some (Inl e)
                 | Some (Inr (prompt2, w2)) \<Rightarrow> Some (Inr (Some prompt2, w2))))"
proof -
  define d where "d = runEveries_loop n ev True evs
      (scope_set ''response'' c (scope_set ''claude_response'' a (p_variables prompt)))
      (wi\<lparr>net := net wi @ [StartConversation (p_body prompt) (p_attachments prompt)]\<rparr>)"
  have fe: "first_exchange ev prompt wi =
           Inr (prompt\<lparr>p_variables := scope_set ''response'' c
                                          (scope_set ''claude_response'' a (p_variables prompt)),
                       p_conversation := Some Conversation\<rparr>, True,
                wi\<lparr>net := net wi @ [StartConversation (p_body prompt) (p_attachments prompt)]\<rparr>)"
    using assms(1,2,5,6) by (rule first_exchange_answered)
  have run: "runPrompt n ev prompt w =
     (case d of
        None \<Rightarrow> None
      | Some (Inl e) \<Rightarrow> Some (Inl e)
      | Some (Inr (variables, w3)) \<Rightarrow>
          (case followup_loop n ev True n 0
                  (prompt\<lparr>p_variables := scope_set ''response'' c
                                   (scope_set ''claude_response'' a (p_variables prompt)),
                           p_conversation := Some Conversation,
                           p_variables := variables\<rparr>, w3) of
             None \<Rightarrow> None
           | Some (Inl e) \<Rightarrow> Some (Inl e)
           | Some (Inr (prompt2, w4)) \<Rightarrow> Some (Inr (Some prompt2, w4))))"
    using assms(1,3) fe
    by (simp add: runPrompt_def Let_def assms(4) [symmetric] runEveries_def truthy_array_def
        d_def del: scope_set_own)
  show ?thesis
  proof (cases d)
    case None
    with run show ?thesis by (simp add: d_def [symmetric] del: scope_set_own)
  next
    case (Some r)
    show ?thesis
    proof (cases r)
      case (Inl e)
      with Some run show ?thesis by (simp add: d_def [symmetric] del: scope_set_own)
    next
      case (Inr p)
      obtain variables1 w1 where "p = (variables1, w1)"
        by (cases p)
      with Some Inr run show ?thesis by (simp add: d_def [symmetric] del: scope_set_own)
    qed
  qed
qed

lemma followup_loop_sent:
  assumes "idx < length (p_followup prompt)"
    and "getPrompt n ev (p_followup prompt ! idx) (p_variables prompt) w = Some (Inr (fu, variables1, w1))"
    and "p_every prompt = Some evs" and "\<not> is_blank (body fu)"
    and "status_done (backend ev (net w1 @ [SendMessage (body fu) (attachments fu)])) = Inr a"
  shows "followup_loop n ev True (Suc k) idx (prompt, w) =
           (case runEveries_loop n ev True (evs @ every fu)
                   (scope_set ''claude_response'' a variables1)
                   (w1\<lparr>net := net w1 @ [SendMessage (body fu) (attachments fu)]\<rparr>) of
              None \<Rightarrow> None
            | Some (Inl e) \<Rightarrow> Some (Inl e)
            | Some (Inr (variables2, w3)) \<Rightarrow>
                followup_loop n ev True k (Suc idx)
                  (prompt\<lparr>p_variables := variables2,
                          p_followup := p_followup prompt @ followup fu,
                          p_every := Some (evs @ every fu)\<rparr>, w3))"
  using assms(1) followup_step_sent [OF assms(2-5)]
  by (simp split: option.splits sum.splits)

lemma followup_loop_blank:
  assumes "idx < length (p_followup prompt)"
    and "getPrompt n ev (p_followup prompt ! idx) (p_variables prompt) w = Some (Inr (fu, variables1, w1))"
    and "p_every prompt = Some evs" and "is_blank (body fu)"
  shows "followup_loop n ev convo (Suc k) idx (prompt, w) =
           followup_loop n ev convo k (Suc idx)
             (prompt\<lparr>p_variables := variables1,
                     p_followup := p_followup prompt @ followup fu,
                     p_every := Some (evs @ every fu)\<rparr>, w1)"
  using assms(1) followup_step_blank [OF assms(2-4)]
  by simp
lemma followup_step_keeps_queue:
  assumes "followup_step n ev convo i (prompt, w) = Some (Inr (prompt', w'))"
    and "p_every prompt = Some evs"
  shows "\<exists>more. p_every prompt' = Some (evs @ more)"
  using assms
  by (auto simp: followup_step_def Let_def runEveries_def
      split: option.splits sum.splits prod.splits if_splits)

lemma followup_loop_keeps_queue:
  assumes "followup_loop n ev convo k idx (prompt, w) = Some (Inr (prompt', w'))"
    and "p_every prompt = Some evs"
  shows "\<exists>more. p_every prompt' = Some (evs @ more)"
  using assms
proof (induction k arbitrary: idx prompt w evs)
  case 0
  then show ?case
    by (simp split: if_splits)
next
  case (Suc k)
  show ?case
  proof (cases "idx < length (p_followup prompt)")
    case False
    with Suc.prems show ?thesis by simp
  next
    case True
    then obtain prompt1 w1 where
      step: "followup_step n ev convo (p_followup prompt ! idx) (prompt, w) = Some (Inr (prompt1, w1))"
      and rest: "followup_loop n ev convo k (Suc idx) (prompt1, w1) = Some (Inr (prompt', w'))"
      using Suc.prems(1) by (auto split: option.splits sum.splits)
    obtain more1 where m1: "p_every prompt1 = Some (evs @ more1)"
      using followup_step_keeps_queue [OF step Suc.prems(2)] by blast
    obtain more2 where "p_every prompt' = Some ((evs @ more1) @ more2)"
      using Suc.IH [OF rest m1] by blast
    then show ?thesis by simp
  qed
qed

subsection \<open>A blank first body\<close>

lemma plain_a: "CHR ''{'' \<notin> set ''a''" "\<not> is_blank ''a''" "normalise ''a'' = ''a''"
  by code_simp+

lemma blank_newline: "is_blank [CHR 0x0A]"
  by code_simp

lemma runPrompt_blank_body_followup:
  assumes "is_blank (p_body prompt)" and "\<not> p_dontRespond prompt" and "p_every prompt = Some []"
    and "p_followup prompt = i # rest" and "CHR ''{'' \<notin> set i" and "\<not> is_blank i"
  shows "runPrompt (Suc n) ev prompt w = Some (Inl TypeError)"
proof -
  define w1 where "w1 = (if \<not> ready w then w\<lparr>net := net w @ [Init], ready := True\<rparr> else w)"
  have fe: "first_exchange ev prompt w1 = Inr (prompt, False, w1)"
    using assms(1,2) by (simp add: first_exchange_def)
  have step: "followup_step (Suc n) ev False i (prompt, w1) = Some (Inl TypeError)"
    using assms(3,5,6)
    by (simp add: followup_step_def getPrompt_no_brace sendMessage_def Let_def is_blank_normalise
        del: getPrompt.simps)
  have loop: "followup_loop (Suc n) ev False (Suc n) 0 (prompt, w1) = Some (Inl TypeError)"
    using step assms(4) by simp
  have "prompt\<lparr>p_variables := p_variables prompt\<rparr> = prompt"
    by simp
  then show ?thesis
    using fe loop assms(3)
    by (simp add: runPrompt_def Let_def w1_def [symmetric] runEveries_def truthy_array_def
        del: followup_loop.simps)
qed

lemma runPrompt_blank_body_every:
  assumes "is_blank (p_body prompt)" and "\<not> p_dontRespond prompt" and "p_every prompt = Some (j # js)"
    and "CHR ''{'' \<notin> set j" and "\<not> is_blank j"
  shows "runPrompt (Suc n) ev prompt w = Some (Inl TypeError)"
proof -
  define w1 where "w1 = (if \<not> ready w then w\<lparr>net := net w @ [Init], ready := True\<rparr> else w)"
  have fe: "first_exchange ev prompt w1 = Inr (prompt, False, w1)"
    using assms(1,2) by (simp add: first_exchange_def)
  have "runEveries (Suc n) ev False (p_every prompt) (p_variables prompt) w1 = Some (Inl TypeError)"
    using assms(3,4,5)
    by (simp add: runEveries_def getPrompt_no_brace sendMessage_def is_blank_normalise
        del: getPrompt.simps)
  then show ?thesis
    using fe
    by (simp add: runPrompt_def Let_def w1_def [symmetric] truthy_array_def
        del: followup_loop.simps)
qed

text \<open>
  Claim C6. The template of the claim's example gives the queue \<open>[a, b]\<close>, in the order of
  the document, and a body that is blank (one line break). \<open>runPrompt\<close> then opens no
  conversation, the variable \<^verbatim>\<open>convo\<close> stays \<^verbatim>\<open>undefined\<close>, and the first
  \<^verbatim>\<open>convo.sendMessage\<close> of the loop over the followups throws: neither \<open>a\<close> nor \<open>b\<close> is
  sent, whatever the backend, the scope and the attachments of the command line are.
\<close>

theorem followups_after_blank_body_are_never_sent:
  "(\<exists>variables'.
      getPrompt (Suc n) ev ''{#followup}a{/followup}{#followup}b{/followup}'' variables w =
        Some (Inr (\<lparr>body = [CHR 0x0A], attachments = [], followup = [''a'', ''b''], every = []\<rparr>,
                   variables', w))) \<and>
   run_template (Suc n) ev atts ''{#followup}a{/followup}{#followup}b{/followup}'' variables w =
     Some (Inl TypeError)"
proof -
  obtain variables' where g:
    "getPrompt (Suc n) ev ''{#followup}a{/followup}{#followup}b{/followup}'' variables w =
       Some (Inr (\<lparr>body = [CHR 0x0A], attachments = [], followup = [''a'', ''b''], every = []\<rparr>,
                  variables', w))"
    using getPrompt_two_followups by blast
  define prompt where "prompt =
    prompt_of atts \<lparr>body = [CHR 0x0A], attachments = [], followup = [''a'', ''b''], every = []\<rparr> variables'"
  have "runPrompt (Suc n) ev prompt w = Some (Inl TypeError)"
    by (rule runPrompt_blank_body_followup [where i = "''a''" and rest = "[''b'']"])
       (simp_all add: prompt_def prompt_of_def blank_newline plain_a)
  then have "run_template (Suc n) ev atts ''{#followup}a{/followup}{#followup}b{/followup}'' variables w =
     Some (Inl TypeError)"
    using g by (simp add: run_template_def prompt_def del: getPrompt.simps)
  with g show ?thesis
    by blast
qed

text \<open>
  The same happens to an every-item after a blank body: the template that is nothing but
  the block \<open>every\<close> with the body \<open>a\<close> ends in the same \<^verbatim>\<open>TypeError\<close>.
\<close>

lemma every_item_after_blank_body_throws:
  "run_template (Suc n) ev atts ''{#every}a{/every}'' variables w = Some (Inl TypeError)"
proof -
  define prompt where "prompt =
    prompt_of atts \<lparr>body = [CHR 0x0A], attachments = [], followup = [], every = [''a'']\<rparr>
      (scope_set ''result'' (JStr []) (scope_set ''response'' (JStr []) variables))"
  have "runPrompt (Suc n) ev prompt w = Some (Inl TypeError)"
    by (rule runPrompt_blank_body_every [where j = "''a''" and js = "[]"])
       (simp_all add: prompt_def prompt_of_def blank_newline plain_a)
  then show ?thesis
    by (simp add: run_template_def getPrompt_every_a prompt_def del: getPrompt.simps)
qed

subsection \<open>The every queue\<close>

text \<open>
  Claim C7 as it was stated fails on an every-item whose evaluation is blank at the time of
  a drain. The prompt has the body \<open>x\<close>, the followup \<open>a\<close> and the every-item
  \<^verbatim>\<open>{response}\<close>. After the first response the item evaluates to the completion \<open>ok\<close>
  and is sent; its own evaluation leaves the empty string in \<open>response\<close>, so after the
  response to the followup it evaluates to a blank body and is not sent again.
\<close>

theorem every_item_with_blank_evaluation_is_skipped:
  "runPrompt 2 demo_env demo_response_prompt demo_world =
     Some (Inr (Some \<lparr>p_variables = [(''claude_response'', JObj [(''completion'', JStr ''ok'')]),
                                      (''response'', JStr []), (''result'', JStr [])],
                       p_body = ''x'', p_followup = [''a''], p_attachments = [],
                       p_every = Some [''{response}''], p_dontRespond = False,
                       p_conversation = Some Conversation\<rparr>,
                \<lparr>files = [],
                 net = [StartConversation ''x'' [],
                        SendMessage (CHR 0x0A # ''ok'' @ [CHR 0x0A]) [],
                        SendMessage ''a'' []],
                 ready = True, rnd = 0\<rparr>))"
  by code_simp

lemma runEveries_loop_single_sent:
  assumes "getPrompt n ev j variables w = Some (Inr (thing, variables1, w1))"
    and "\<not> is_blank (body thing)"
    and "status_done (backend ev (net w1 @ [SendMessage (body thing) (attachments thing)])) = Inr a"
  shows "runEveries_loop n ev True [j] variables w =
           Some (Inr (scope_set ''claude_response'' a variables1,
                      w1\<lparr>net := net w1 @ [SendMessage (body thing) (attachments thing)]\<rparr>))"
  using runEveries_loop_sent [OF assms, of "[]"] by simp

lemma runEveries_loop_single_blank:
  assumes "getPrompt n ev j variables w = Some (Inr (thing, variables1, w1))"
    and "is_blank (body thing)"
  shows "runEveries_loop n ev convo [j] variables w = Some (Inr (variables1, w1))"
  using runEveries_loop_blank [OF assms, of convo "[]"] by simp

text \<open>
  Claim C7, as amended. Let the first body be sent (it is not blank, and \<^verbatim>\<open>dontRespond\<close> is
  not set) and the backend answer it. Then \<open>runPrompt\<close>, after \<^verbatim>\<open>claude.init()\<close> if the client
  was not ready, drains the whole every queue after the first response and goes on to the
  followups (first part). A followup whose evaluation is not blank is sent, and after its
  response the whole every queue, with the items that the evaluation of the followup has
  queued, is drained before the next followup is looked at (second part); a followup whose
  evaluation is blank is not sent, and no drain follows it (third part). A drain goes
  through the queue in its order, one item after the other (fourth part); each item is
  evaluated on the scope of that moment and is sent when the evaluation is not blank, the
  response going to \<open>claude_response\<close> (fifth part), and is passed over when the evaluation
  is blank (sixth part). The loop over the followups only adds to the every queue: an item
  that is queued stays queued, at its place (seventh part). For queued texts without
  directives, whose evaluation is their own text, and a backend that answers every
  request, the requests of the run are: the first message, every every-item in the queued
  order, and then for each followup in turn the followup and again every every-item in the
  queued order (last part).
\<close>

theorem every_queue_is_drained_after_each_response:
  "(\<not> is_blank (p_body prompt) \<and>
    \<not> p_dontRespond prompt \<and>
    p_every prompt = Some evs \<and>
    wi = (if \<not> ready w then w\<lparr>net := net w @ [Init], ready := True\<rparr> else w) \<and>
    status_done (backend ev (net wi @ [StartConversation (p_body prompt) (p_attachments prompt)])) = Inr a \<and>
    get_prop a ''completion'' = Inr c \<longrightarrow>
      runPrompt n ev prompt w =
        (case runEveries_loop n ev True evs
                (scope_set ''response'' c (scope_set ''claude_response'' a (p_variables prompt)))
                (wi\<lparr>net := net wi @ [StartConversation (p_body prompt) (p_attachments prompt)]\<rparr>) of
           None \<Rightarrow> None
         | Some (Inl e) \<Rightarrow> Some (Inl e)
         | Some (Inr (scope1, world1)) \<Rightarrow>
             (case followup_loop n ev True n 0
                     (prompt\<lparr>p_conversation := Some Conversation, p_variables := scope1\<rparr>, world1) of
                None \<Rightarrow> None
              | Some (Inl e) \<Rightarrow> Some (Inl e)
              | Some (Inr (prompt2, world2)) \<Rightarrow> Some (Inr (Some prompt2, world2))))) \<and>
   (idx < length (p_followup prompt) \<and>
    getPrompt n ev (p_followup prompt ! idx) (p_variables prompt) w = Some (Inr (fu, variables1, w1)) \<and>
    p_every prompt = Some evs \<and>
    \<not> is_blank (body fu) \<and>
    status_done (backend ev (net w1 @ [SendMessage (body fu) (attachments fu)])) = Inr a \<longrightarrow>
      followup_loop n ev True (Suc k) idx (prompt, w) =
        (case runEveries_loop n ev True (evs @ every fu)
                (scope_set ''claude_response'' a variables1)
                (w1\<lparr>net := net w1 @ [SendMessage (body fu) (attachments fu)]\<rparr>) of
           None \<Rightarrow> None
         | Some (Inl e) \<Rightarrow> Some (Inl e)
         | Some (Inr (scope2, world2)) \<Rightarrow>
             followup_loop n ev True k (Suc idx)
               (prompt\<lparr>p_variables := scope2,
                       p_followup := p_followup prompt @ followup fu,
                       p_every := Some (evs @ every fu)\<rparr>, world2))) \<and>
   (idx0 < length (p_followup prompt0) \<and>
    getPrompt n ev (p_followup prompt0 ! idx0) (p_variables prompt0) w = Some (Inr (fu0, variables0, w0)) \<and>
    p_every prompt0 = Some evs \<and>
    is_blank (body fu0) \<longrightarrow>
      followup_loop n ev True (Suc k) idx0 (prompt0, w) =
        followup_loop n ev True k (Suc idx0)
          (prompt0\<lparr>p_variables := variables0,
                   p_followup := p_followup prompt0 @ followup fu0,
                   p_every := Some (evs @ every fu0)\<rparr>, w0)) \<and>
   runEveries_loop n ev True (js1 @ js2) variables w =
        (case runEveries_loop n ev True js1 variables w of
        None \<Rightarrow> None
      | Some (Inl e) \<Rightarrow> Some (Inl e)
      | Some (Inr (scope1, world1)) \<Rightarrow> runEveries_loop n ev True js2 scope1 world1) \<and>
   (getPrompt n ev j variables w = Some (Inr (thing, variables1, w1)) \<and>
    \<not> is_blank (body thing) \<and>
    status_done (backend ev (net w1 @ [SendMessage (body thing) (attachments thing)])) = Inr a \<longrightarrow>
      runEveries_loop n ev True [j] variables w =
        Some (Inr (scope_set ''claude_response'' a variables1,
                   w1\<lparr>net := net w1 @ [SendMessage (body thing) (attachments thing)]\<rparr>))) \<and>
   (getPrompt n ev j0 variables w = Some (Inr (thing0, variables0, w0)) \<and>
    is_blank (body thing0) \<longrightarrow>
      runEveries_loop n ev True [j0] variables w =
        Some (Inr (variables0, w0))) \<and>
   (followup_loop n ev convo k3 idx3 (prompt, w) = Some (Inr (prompt3, w3)) \<and>
    p_every prompt = Some evs \<longrightarrow>
      (\<exists>more. p_every prompt3 = Some (evs @ more))) \<and>
   ((\<forall>log. status_done (backend ev log) = Inr (backend ev log)) \<and>
    \<not> p_dontRespond prompt \<and>
    \<not> is_blank (p_body prompt) \<and>
    p_every prompt = Some evs \<and>
    list_all plain evs \<and>
    list_all plain (p_followup prompt) \<and>
    length (p_followup prompt) \<le> Suc m \<longrightarrow>
      (\<exists>prompt'. runPrompt (Suc m) ev prompt w =
         Some (Inr (Some prompt',
           w\<lparr>net := net w @ (if ready w then [] else [Init]) @
                 [StartConversation (p_body prompt) (p_attachments prompt)] @ sends evs @
                 concat (map (\<lambda>i. SendMessage (normalise i) [] # sends evs) (p_followup prompt)),
             ready := True\<rparr>))))"
proof (intro conjI)
  show "\<not> is_blank (p_body prompt) \<and>
    \<not> p_dontRespond prompt \<and>
    p_every prompt = Some evs \<and>
    wi = (if \<not> ready w then w\<lparr>net := net w @ [Init], ready := True\<rparr> else w) \<and>
    status_done (backend ev (net wi @ [StartConversation (p_body prompt) (p_attachments prompt)])) = Inr a \<and>
    get_prop a ''completion'' = Inr c \<longrightarrow>
      runPrompt n ev prompt w =
        (case runEveries_loop n ev True evs
                (scope_set ''response'' c (scope_set ''claude_response'' a (p_variables prompt)))
                (wi\<lparr>net := net wi @ [StartConversation (p_body prompt) (p_attachments prompt)]\<rparr>) of
           None \<Rightarrow> None
         | Some (Inl e) \<Rightarrow> Some (Inl e)
         | Some (Inr (scope1, world1)) \<Rightarrow>
             (case followup_loop n ev True n 0
                     (prompt\<lparr>p_conversation := Some Conversation, p_variables := scope1\<rparr>, world1) of
                None \<Rightarrow> None
              | Some (Inl e) \<Rightarrow> Some (Inl e)
              | Some (Inr (prompt2, world2)) \<Rightarrow> Some (Inr (Some prompt2, world2))))"
    by (intro impI) (elim conjE, rule runPrompt_answered)
next
  show "idx < length (p_followup prompt) \<and>
    getPrompt n ev (p_followup prompt ! idx) (p_variables prompt) w = Some (Inr (fu, variables1, w1)) \<and>
    p_every prompt = Some evs \<and>
    \<not> is_blank (body fu) \<and>
    status_done (backend ev (net w1 @ [SendMessage (body fu) (attachments fu)])) = Inr a \<longrightarrow>
      followup_loop n ev True (Suc k) idx (prompt, w) =
        (case runEveries_loop n ev True (evs @ every fu)
                (scope_set ''claude_response'' a variables1)
                (w1\<lparr>net := net w1 @ [SendMessage (body fu) (attachments fu)]\<rparr>) of
           None \<Rightarrow> None
         | Some (Inl e) \<Rightarrow> Some (Inl e)
         | Some (Inr (scope2, world2)) \<Rightarrow>
             followup_loop n ev True k (Suc idx)
               (prompt\<lparr>p_variables := scope2,
                       p_followup := p_followup prompt @ followup fu,
                       p_every := Some (evs @ every fu)\<rparr>, world2))"
    by (intro impI) (elim conjE, rule followup_loop_sent)
next
  show "idx0 < length (p_followup prompt0) \<and>
    getPrompt n ev (p_followup prompt0 ! idx0) (p_variables prompt0) w = Some (Inr (fu0, variables0, w0)) \<and>
    p_every prompt0 = Some evs \<and>
    is_blank (body fu0) \<longrightarrow>
      followup_loop n ev True (Suc k) idx0 (prompt0, w) =
        followup_loop n ev True k (Suc idx0)
          (prompt0\<lparr>p_variables := variables0,
                   p_followup := p_followup prompt0 @ followup fu0,
                   p_every := Some (evs @ every fu0)\<rparr>, w0)"
    by (intro impI) (elim conjE, rule followup_loop_blank)
next
  show "runEveries_loop n ev True (js1 @ js2) variables w =
        (case runEveries_loop n ev True js1 variables w of
        None \<Rightarrow> None
      | Some (Inl e) \<Rightarrow> Some (Inl e)
      | Some (Inr (scope1, world1)) \<Rightarrow> runEveries_loop n ev True js2 scope1 world1)"
    by (rule runEveries_loop_append)
next
  show "getPrompt n ev j variables w = Some (Inr (thing, variables1, w1)) \<and>
    \<not> is_blank (body thing) \<and>
    status_done (backend ev (net w1 @ [SendMessage (body thing) (attachments thing)])) = Inr a \<longrightarrow>
      runEveries_loop n ev True [j] variables w =
        Some (Inr (scope_set ''claude_response'' a variables1,
                   w1\<lparr>net := net w1 @ [SendMessage (body thing) (attachments thing)]\<rparr>))"
    by (intro impI) (elim conjE, rule runEveries_loop_single_sent)
next
  show "getPrompt n ev j0 variables w = Some (Inr (thing0, variables0, w0)) \<and>
    is_blank (body thing0) \<longrightarrow>
      runEveries_loop n ev True [j0] variables w =
        Some (Inr (variables0, w0))"
    by (intro impI) (elim conjE, rule runEveries_loop_single_blank)
next
  show "followup_loop n ev convo k3 idx3 (prompt, w) = Some (Inr (prompt3, w3)) \<and>
    p_every prompt = Some evs \<longrightarrow>
      (\<exists>more. p_every prompt3 = Some (evs @ more))"
    by (intro impI) (elim conjE, rule followup_loop_keeps_queue)
next
  show "(\<forall>log. status_done (backend ev log) = Inr (backend ev log)) \<and>
    \<not> p_dontRespond prompt \<and>
    \<not> is_blank (p_body prompt) \<and>
    p_every prompt = Some evs \<and>
    list_all plain evs \<and>
    list_all plain (p_followup prompt) \<and>
    length (p_followup prompt) \<le> Suc m \<longrightarrow>
      (\<exists>prompt'. runPrompt (Suc m) ev prompt w =
         Some (Inr (Some prompt',
           w\<lparr>net := net w @ (if ready w then [] else [Init]) @
                 [StartConversation (p_body prompt) (p_attachments prompt)] @ sends evs @
                 concat (map (\<lambda>i. SendMessage (normalise i) [] # sends evs) (p_followup prompt)),
             ready := True\<rparr>)))"
    by (intro impI) (elim conjE, rule runPrompt_plain, simp_all)
qed

theorem every_queue_witness:
  "\<not> is_blank (p_body demo_queue_prompt) \<and>
   \<not> p_dontRespond demo_queue_prompt \<and>
   p_every demo_queue_prompt = Some [''e'', ''f''] \<and>
   demo_world = (if \<not> ready demo_world then demo_world\<lparr>net := net demo_world @ [Init], ready := True\<rparr> else demo_world) \<and>
   status_done (backend demo_env (net demo_world @ [StartConversation (p_body demo_queue_prompt) (p_attachments demo_queue_prompt)])) = Inr (JObj [(''completion'', JStr ''ok'')]) \<and>
   get_prop (JObj [(''completion'', JStr ''ok'')]) ''completion'' = Inr (JStr ''ok'') \<and>
   runPrompt 2 demo_env demo_queue_prompt demo_world =
     Some (Inr (Some \<lparr>p_variables = [(''claude_response'', JObj [(''completion'', JStr ''ok'')]),
                                 (''response'', JStr ''ok'')],
                  p_body = ''x'', p_followup = [''a'', ''b''], p_attachments = [],
                  p_every = Some [''e'', ''f''], p_dontRespond = False,
                  p_conversation = Some Conversation\<rparr>,
           \<lparr>files = [],
            net = [StartConversation ''x'' [], SendMessage ''e'' [], SendMessage ''f'' [],
                   SendMessage ''a'' [], SendMessage ''e'' [], SendMessage ''f'' [],
                   SendMessage ''b'' [], SendMessage ''e'' [], SendMessage ''f'' []],
            ready = True, rnd = 0\<rparr>)) \<and>
   0 < length (p_followup demo_queue_prompt) \<and>
   getPrompt 2 demo_env (p_followup demo_queue_prompt ! 0) (p_variables demo_queue_prompt) demo_world = Some (Inr (\<lparr>body = ''a'', attachments = [], followup = [], every = []\<rparr>, [], demo_world)) \<and>
   p_every demo_queue_prompt = Some [''e'', ''f''] \<and>
   \<not> is_blank (body \<lparr>body = ''a'', attachments = [], followup = [], every = []\<rparr>) \<and>
   status_done (backend demo_env (net demo_world @ [SendMessage (body \<lparr>body = ''a'', attachments = [], followup = [], every = []\<rparr>) (attachments \<lparr>body = ''a'', attachments = [], followup = [], every = []\<rparr>)])) = Inr (JObj [(''completion'', JStr ''ok'')]) \<and>
   followup_loop 2 demo_env True (Suc 1) 0 (demo_queue_prompt, demo_world) =
     Some (Inr (\<lparr>p_variables = [(''claude_response'', JObj [(''completion'', JStr ''ok'')])],
             p_body = ''x'', p_followup = [''a'', ''b''], p_attachments = [],
             p_every = Some [''e'', ''f''], p_dontRespond = False, p_conversation = None\<rparr>,
           \<lparr>files = [],
            net = [SendMessage ''a'' [], SendMessage ''e'' [], SendMessage ''f'' [],
                   SendMessage ''b'' [], SendMessage ''e'' [], SendMessage ''f'' []],
            ready = True, rnd = 0\<rparr>)) \<and>
   0 < length (p_followup (demo_queue_prompt\<lparr>p_followup := ['' '']\<rparr>)) \<and>
   getPrompt 2 demo_env (p_followup (demo_queue_prompt\<lparr>p_followup := ['' '']\<rparr>) ! 0) (p_variables (demo_queue_prompt\<lparr>p_followup := ['' '']\<rparr>)) demo_world = Some (Inr (\<lparr>body = [CHR 0x0A], attachments = [], followup = [], every = []\<rparr>, [], demo_world)) \<and>
   p_every (demo_queue_prompt\<lparr>p_followup := ['' '']\<rparr>) = Some [''e'', ''f''] \<and>
   is_blank (body \<lparr>body = [CHR 0x0A], attachments = [], followup = [], every = []\<rparr>) \<and>
   followup_loop 2 demo_env True (Suc 1) 0 ((demo_queue_prompt\<lparr>p_followup := ['' '']\<rparr>), demo_world) =
     Some (Inr (\<lparr>p_variables = [], p_body = ''x'', p_followup = ['' ''], p_attachments = [],
             p_every = Some [''e'', ''f''], p_dontRespond = False, p_conversation = None\<rparr>,
           \<lparr>files = [], net = [], ready = True, rnd = 0\<rparr>)) \<and>
   getPrompt 2 demo_env ''e'' [] demo_world = Some (Inr (\<lparr>body = ''e'', attachments = [], followup = [], every = []\<rparr>, [], demo_world)) \<and>
   \<not> is_blank (body \<lparr>body = ''e'', attachments = [], followup = [], every = []\<rparr>) \<and>
   status_done (backend demo_env (net demo_world @ [SendMessage (body \<lparr>body = ''e'', attachments = [], followup = [], every = []\<rparr>) (attachments \<lparr>body = ''e'', attachments = [], followup = [], every = []\<rparr>)])) = Inr (JObj [(''completion'', JStr ''ok'')]) \<and>
   runEveries_loop 2 demo_env True [''e''] [] demo_world =
     Some (Inr ([(''claude_response'', JObj [(''completion'', JStr ''ok'')])],
           \<lparr>files = [], net = [SendMessage ''e'' []], ready = True, rnd = 0\<rparr>)) \<and>
   getPrompt 2 demo_env '' '' [] demo_world = Some (Inr (\<lparr>body = [CHR 0x0A], attachments = [], followup = [], every = []\<rparr>, [], demo_world)) \<and>
   is_blank (body \<lparr>body = [CHR 0x0A], attachments = [], followup = [], every = []\<rparr>) \<and>
   runEveries_loop 2 demo_env True ['' ''] [] demo_world =
     Some (Inr ([], \<lparr>files = [], net = [], ready = True, rnd = 0\<rparr>)) \<and>
   followup_loop 2 demo_env True 2 0 (demo_queue_prompt, demo_world) = Some (Inr (\<lparr>p_variables = [(''claude_response'', JObj [(''completion'', JStr ''ok'')])], p_body = ''x'', p_followup = [''a'', ''b''], p_attachments = [], p_every = Some [''e'', ''f''], p_dontRespond = False, p_conversation = None\<rparr>, \<lparr>files = [], net = [SendMessage ''a'' [], SendMessage ''e'' [], SendMessage ''f'' [], SendMessage ''b'' [], SendMessage ''e'' [], SendMessage ''f'' []], ready = True, rnd = 0\<rparr>)) \<and>
   p_every demo_queue_prompt = Some [''e'', ''f''] \<and>
   (\<exists>more. p_every \<lparr>p_variables = [(''claude_response'', JObj [(''completion'', JStr ''ok'')])], p_body = ''x'', p_followup = [''a'', ''b''], p_attachments = [], p_every = Some [''e'', ''f''], p_dontRespond = False, p_conversation = None\<rparr> = Some ([''e'', ''f''] @ more)) \<and>
   (\<forall>log. status_done (backend demo_env log) = Inr (backend demo_env log)) \<and>
   \<not> p_dontRespond demo_queue_prompt \<and>
   \<not> is_blank (p_body demo_queue_prompt) \<and>
   p_every demo_queue_prompt = Some [''e'', ''f''] \<and>
   list_all plain [''e'', ''f''] \<and>
   list_all plain (p_followup demo_queue_prompt) \<and>
   length (p_followup demo_queue_prompt) \<le> Suc 1 \<and>
   (\<exists>prompt'. runPrompt (Suc 1) demo_env demo_queue_prompt demo_world =
      Some (Inr (Some prompt',
        demo_world\<lparr>net := [StartConversation ''x'' [], SendMessage ''e'' [], SendMessage ''f'' [],
                             SendMessage ''a'' [], SendMessage ''e'' [], SendMessage ''f'' [],
                             SendMessage ''b'' [], SendMessage ''e'' [], SendMessage ''f'' []]\<rparr>)))"
proof -
  note t = every_queue_is_drained_after_each_response
      [where prompt = "demo_queue_prompt"
       and w = "demo_world"
       and wi = "demo_world"
       and evs = "[''e'', ''f'']"
       and ev = "demo_env"
       and a = "(JObj [(''completion'', JStr ''ok'')])"
       and c = "(JStr ''ok'')"
       and n = "2"
       and idx = "0"
       and fu = "\<lparr>body = ''a'', attachments = [], followup = [], every = []\<rparr>"
       and ?variables1.0 = "[]"
       and ?w1.0 = "demo_world"
       and k = "1"
       and ?idx0.0 = "0"
       and ?prompt0.0 = "(demo_queue_prompt\<lparr>p_followup := ['' '']\<rparr>)"
       and ?fu0.0 = "\<lparr>body = [CHR 0x0A], attachments = [], followup = [], every = []\<rparr>"
       and ?variables0.0 = "[]"
       and ?w0.0 = "demo_world"
       and ?js1.0 = "[''e'']"
       and ?js2.0 = "[''f'']"
       and variables = "[]"
       and j = "''e''"
       and thing = "\<lparr>body = ''e'', attachments = [], followup = [], every = []\<rparr>"
       and ?j0.0 = "'' ''"
       and ?thing0.0 = "\<lparr>body = [CHR 0x0A], attachments = [], followup = [], every = []\<rparr>"
       and m = "1"
       and convo = "True"
       and ?k3.0 = "2"
       and ?idx3.0 = "0"
       and ?prompt3.0 = "\<lparr>p_variables = [(''claude_response'', JObj [(''completion'', JStr ''ok'')])], p_body = ''x'', p_followup = [''a'', ''b''], p_attachments = [], p_every = Some [''e'', ''f''], p_dontRespond = False, p_conversation = None\<rparr>"
       and ?w3.0 = "\<lparr>files = [], net = [SendMessage ''a'' [], SendMessage ''e'' [], SendMessage ''f'' [], SendMessage ''b'' [], SendMessage ''e'' [], SendMessage ''f'' []], ready = True, rnd = 0\<rparr>"]
  have h0: "\<not> is_blank (p_body demo_queue_prompt) \<and>
   \<not> p_dontRespond demo_queue_prompt \<and>
   p_every demo_queue_prompt = Some [''e'', ''f''] \<and>
   demo_world = (if \<not> ready demo_world then demo_world\<lparr>net := net demo_world @ [Init], ready := True\<rparr> else demo_world) \<and>
   status_done (backend demo_env (net demo_world @ [StartConversation (p_body demo_queue_prompt) (p_attachments demo_queue_prompt)])) = Inr (JObj [(''completion'', JStr ''ok'')]) \<and>
   get_prop (JObj [(''completion'', JStr ''ok'')]) ''completion'' = Inr (JStr ''ok'')"
    by (intro conjI) code_simp+
  have e0: "(case runEveries_loop 2 demo_env True [''e'', ''f'']
                (scope_set ''response'' (JStr ''ok'') (scope_set ''claude_response'' (JObj [(''completion'', JStr ''ok'')]) (p_variables demo_queue_prompt)))
                (demo_world\<lparr>net := net demo_world @ [StartConversation (p_body demo_queue_prompt) (p_attachments demo_queue_prompt)]\<rparr>) of
           None \<Rightarrow> None
         | Some (Inl e) \<Rightarrow> Some (Inl e)
         | Some (Inr (scope1, world1)) \<Rightarrow>
             (case followup_loop 2 demo_env True 2 0
                     (demo_queue_prompt\<lparr>p_conversation := Some Conversation, p_variables := scope1\<rparr>, world1) of
                None \<Rightarrow> None
              | Some (Inl e) \<Rightarrow> Some (Inl e)
              | Some (Inr (prompt2, world2)) \<Rightarrow> Some (Inr (Some prompt2, world2)))) =
     Some (Inr (Some \<lparr>p_variables = [(''claude_response'', JObj [(''completion'', JStr ''ok'')]),
                                 (''response'', JStr ''ok'')],
                  p_body = ''x'', p_followup = [''a'', ''b''], p_attachments = [],
                  p_every = Some [''e'', ''f''], p_dontRespond = False,
                  p_conversation = Some Conversation\<rparr>,
           \<lparr>files = [],
            net = [StartConversation ''x'' [], SendMessage ''e'' [], SendMessage ''f'' [],
                   SendMessage ''a'' [], SendMessage ''e'' [], SendMessage ''f'' [],
                   SendMessage ''b'' [], SendMessage ''e'' [], SendMessage ''f'' []],
            ready = True, rnd = 0\<rparr>))"
    by code_simp
  note c0 = trans [OF t [THEN conjunct1, THEN mp, OF h0] e0]
  have h1: "0 < length (p_followup demo_queue_prompt) \<and>
   getPrompt 2 demo_env (p_followup demo_queue_prompt ! 0) (p_variables demo_queue_prompt) demo_world = Some (Inr (\<lparr>body = ''a'', attachments = [], followup = [], every = []\<rparr>, [], demo_world)) \<and>
   p_every demo_queue_prompt = Some [''e'', ''f''] \<and>
   \<not> is_blank (body \<lparr>body = ''a'', attachments = [], followup = [], every = []\<rparr>) \<and>
   status_done (backend demo_env (net demo_world @ [SendMessage (body \<lparr>body = ''a'', attachments = [], followup = [], every = []\<rparr>) (attachments \<lparr>body = ''a'', attachments = [], followup = [], every = []\<rparr>)])) = Inr (JObj [(''completion'', JStr ''ok'')])"
    by (intro conjI) code_simp+
  have e1: "(case runEveries_loop 2 demo_env True ([''e'', ''f''] @ every \<lparr>body = ''a'', attachments = [], followup = [], every = []\<rparr>)
                (scope_set ''claude_response'' (JObj [(''completion'', JStr ''ok'')]) [])
                (demo_world\<lparr>net := net demo_world @ [SendMessage (body \<lparr>body = ''a'', attachments = [], followup = [], every = []\<rparr>) (attachments \<lparr>body = ''a'', attachments = [], followup = [], every = []\<rparr>)]\<rparr>) of
           None \<Rightarrow> None
         | Some (Inl e) \<Rightarrow> Some (Inl e)
         | Some (Inr (scope2, world2)) \<Rightarrow>
             followup_loop 2 demo_env True 1 (Suc 0)
               (demo_queue_prompt\<lparr>p_variables := scope2,
                       p_followup := p_followup demo_queue_prompt @ followup \<lparr>body = ''a'', attachments = [], followup = [], every = []\<rparr>,
                       p_every := Some ([''e'', ''f''] @ every \<lparr>body = ''a'', attachments = [], followup = [], every = []\<rparr>)\<rparr>, world2)) =
     Some (Inr (\<lparr>p_variables = [(''claude_response'', JObj [(''completion'', JStr ''ok'')])],
             p_body = ''x'', p_followup = [''a'', ''b''], p_attachments = [],
             p_every = Some [''e'', ''f''], p_dontRespond = False, p_conversation = None\<rparr>,
           \<lparr>files = [],
            net = [SendMessage ''a'' [], SendMessage ''e'' [], SendMessage ''f'' [],
                   SendMessage ''b'' [], SendMessage ''e'' [], SendMessage ''f'' []],
            ready = True, rnd = 0\<rparr>))"
    by code_simp
  note c1 = trans [OF t [THEN conjunct2, THEN conjunct1, THEN mp, OF h1] e1]
  have h2: "0 < length (p_followup (demo_queue_prompt\<lparr>p_followup := ['' '']\<rparr>)) \<and>
   getPrompt 2 demo_env (p_followup (demo_queue_prompt\<lparr>p_followup := ['' '']\<rparr>) ! 0) (p_variables (demo_queue_prompt\<lparr>p_followup := ['' '']\<rparr>)) demo_world = Some (Inr (\<lparr>body = [CHR 0x0A], attachments = [], followup = [], every = []\<rparr>, [], demo_world)) \<and>
   p_every (demo_queue_prompt\<lparr>p_followup := ['' '']\<rparr>) = Some [''e'', ''f''] \<and>
   is_blank (body \<lparr>body = [CHR 0x0A], attachments = [], followup = [], every = []\<rparr>)"
    by (intro conjI) code_simp+
  have e2: "followup_loop 2 demo_env True 1 (Suc 0)
          ((demo_queue_prompt\<lparr>p_followup := ['' '']\<rparr>)\<lparr>p_variables := [],
                   p_followup := p_followup (demo_queue_prompt\<lparr>p_followup := ['' '']\<rparr>) @ followup \<lparr>body = [CHR 0x0A], attachments = [], followup = [], every = []\<rparr>,
                   p_every := Some ([''e'', ''f''] @ every \<lparr>body = [CHR 0x0A], attachments = [], followup = [], every = []\<rparr>)\<rparr>, demo_world) =
     Some (Inr (\<lparr>p_variables = [], p_body = ''x'', p_followup = ['' ''], p_attachments = [],
             p_every = Some [''e'', ''f''], p_dontRespond = False, p_conversation = None\<rparr>,
           \<lparr>files = [], net = [], ready = True, rnd = 0\<rparr>))"
    by code_simp
  note c2 = trans [OF t [THEN conjunct2, THEN conjunct2, THEN conjunct1, THEN mp, OF h2] e2]
  have h4: "getPrompt 2 demo_env ''e'' [] demo_world = Some (Inr (\<lparr>body = ''e'', attachments = [], followup = [], every = []\<rparr>, [], demo_world)) \<and>
   \<not> is_blank (body \<lparr>body = ''e'', attachments = [], followup = [], every = []\<rparr>) \<and>
   status_done (backend demo_env (net demo_world @ [SendMessage (body \<lparr>body = ''e'', attachments = [], followup = [], every = []\<rparr>) (attachments \<lparr>body = ''e'', attachments = [], followup = [], every = []\<rparr>)])) = Inr (JObj [(''completion'', JStr ''ok'')])"
    by (intro conjI) code_simp+
  have e4: "(Some (Inr (scope_set ''claude_response'' (JObj [(''completion'', JStr ''ok'')]) [],
                   demo_world\<lparr>net := net demo_world @ [SendMessage (body \<lparr>body = ''e'', attachments = [], followup = [], every = []\<rparr>) (attachments \<lparr>body = ''e'', attachments = [], followup = [], every = []\<rparr>)]\<rparr>)) :: (scope \<times> world) outcome) =
     Some (Inr ([(''claude_response'', JObj [(''completion'', JStr ''ok'')])],
           \<lparr>files = [], net = [SendMessage ''e'' []], ready = True, rnd = 0\<rparr>))"
    by code_simp
  note c4 = trans [OF t [THEN conjunct2, THEN conjunct2, THEN conjunct2, THEN conjunct2, THEN conjunct1, THEN mp, OF h4] e4]
  have h5: "getPrompt 2 demo_env '' '' [] demo_world = Some (Inr (\<lparr>body = [CHR 0x0A], attachments = [], followup = [], every = []\<rparr>, [], demo_world)) \<and>
   is_blank (body \<lparr>body = [CHR 0x0A], attachments = [], followup = [], every = []\<rparr>)"
    by (intro conjI) code_simp+
  have e5: "(Some (Inr ([], demo_world)) :: (scope \<times> world) outcome) =
     Some (Inr ([], \<lparr>files = [], net = [], ready = True, rnd = 0\<rparr>))"
    by code_simp
  note c5 = trans [OF t [THEN conjunct2, THEN conjunct2, THEN conjunct2, THEN conjunct2, THEN conjunct2, THEN conjunct1, THEN mp, OF h5] e5]
  have h6: "followup_loop 2 demo_env True 2 0 (demo_queue_prompt, demo_world) = Some (Inr (\<lparr>p_variables = [(''claude_response'', JObj [(''completion'', JStr ''ok'')])], p_body = ''x'', p_followup = [''a'', ''b''], p_attachments = [], p_every = Some [''e'', ''f''], p_dontRespond = False, p_conversation = None\<rparr>, \<lparr>files = [], net = [SendMessage ''a'' [], SendMessage ''e'' [], SendMessage ''f'' [], SendMessage ''b'' [], SendMessage ''e'' [], SendMessage ''f'' []], ready = True, rnd = 0\<rparr>)) \<and>
   p_every demo_queue_prompt = Some [''e'', ''f'']"
    by (intro conjI) code_simp+
  note c6 = t [THEN conjunct2, THEN conjunct2, THEN conjunct2, THEN conjunct2, THEN conjunct2, THEN conjunct2, THEN conjunct1, THEN mp, OF h6]
  have h7: "(\<forall>log. status_done (backend demo_env log) = Inr (backend demo_env log)) \<and>
   \<not> p_dontRespond demo_queue_prompt \<and>
   \<not> is_blank (p_body demo_queue_prompt) \<and>
   p_every demo_queue_prompt = Some [''e'', ''f''] \<and>
   list_all plain [''e'', ''f''] \<and>
   list_all plain (p_followup demo_queue_prompt) \<and>
   length (p_followup demo_queue_prompt) \<le> Suc 1"
    by (intro conjI allI demo_backend_ok) code_simp+
  have e7_0: "demo_world\<lparr>net := net demo_world @ (if ready demo_world then [] else [Init]) @
                 [StartConversation (p_body demo_queue_prompt) (p_attachments demo_queue_prompt)] @ sends [''e'', ''f''] @
                 concat (map (\<lambda>i. SendMessage (normalise i) [] # sends [''e'', ''f'']) (p_followup demo_queue_prompt)),
             ready := True\<rparr> =
     demo_world\<lparr>net := [StartConversation ''x'' [], SendMessage ''e'' [], SendMessage ''f'' [],
                          SendMessage ''a'' [], SendMessage ''e'' [], SendMessage ''f'' [],
                          SendMessage ''b'' [], SendMessage ''e'' [], SendMessage ''f'' []]\<rparr>"
    by code_simp
  note c7 = t [THEN conjunct2, THEN conjunct2, THEN conjunct2, THEN conjunct2, THEN conjunct2, THEN conjunct2, THEN conjunct2, THEN mp, OF h7, unfolded e7_0]
  show ?thesis
    using h0 c0 h1 c1 h2 c2 h4 c4 h5 c5 h6 c6 h7 c7 by blast
qed

subsection \<open>Deferred bodies\<close>

lemma followup_step_error:
  assumes "getPrompt n ev i (p_variables prompt) w = Some (Inl e)"
  shows "followup_step n ev convo i (prompt, w) = Some (Inl e)"
  using assms by (simp add: followup_step_def)

lemma runEveries_loop_error:
  assumes "getPrompt n ev j variables w = Some (Inl e)"
  shows "runEveries_loop n ev convo (j # js) variables w = Some (Inl e)"
  using assms by simp

text \<open>
  Claim C3, as amended. A block whose command is \<open>followup\<close> or \<open>every\<close> queues its raw body:
  the recursive call \<open>rec\<close> is not made, nothing is substituted, the body text and the world
  stay as they are (first part). An inline command \<open>followup\<close> or \<open>every\<close> queues its input
  after \<open>simpleVarReplace\<close> on the scope at definition time (second part). A queued text is
  parsed and evaluated when the orchestrator reaches it, on the scope of that moment. For a
  followup that is the scope \<open>p_variables\<close> of the prompt when its round begins: what is
  sent is the body of that evaluation with its attachments, the response goes to
  \<open>claude_response\<close> of the scope the evaluation has left, and the every queue is drained on
  that scope (third part); an error of the evaluation is an error of the round (fourth
  part). For an every-item it is the scope that the items before it in the drain have left
  (fifth and sixth part).
\<close>

theorem deferred_bodies_wait_for_the_drain:
  "(command \<in> set [''followup'', ''every''] \<longrightarrow>
      eval_node ev rec (Block command param var raw) (acc, variables, w) =
        Some (Inr (acc\<lparr>every := every acc @ (if command = ''every'' then [raw] else []),
                       followup := followup acc @ (if command = ''followup'' then [raw] else [])\<rparr>,
                   snd (finish_node var empty_result acc variables), w))) \<and>
   (command \<in> set [''followup'', ''every''] \<and>
    parse_value (Some s) = Inr (Some t) \<longrightarrow>
      eval_node ev rec (Command command (Some s) var) (acc, variables, w) =
        Some (Inr (acc\<lparr>every := every acc @
                           (if command = ''every'' then [simpleVarReplace variables t] else []),
                       followup := followup acc @
                           (if command = ''followup'' then [simpleVarReplace variables t] else [])\<rparr>,
                   snd (finish_node var empty_result acc variables), w))) \<and>
   (getPrompt n ev i (p_variables prompt) w = Some (Inr (fu, variables1, w1)) \<and>
    p_every prompt = Some evs \<and>
    \<not> is_blank (body fu) \<and>
    status_done (backend ev (net w1 @ [SendMessage (body fu) (attachments fu)])) = Inr a \<longrightarrow>
      followup_step n ev True i (prompt, w) =
        (case runEveries_loop n ev True (evs @ every fu)
                (scope_set ''claude_response'' a variables1)
                (w1\<lparr>net := net w1 @ [SendMessage (body fu) (attachments fu)]\<rparr>) of
           None \<Rightarrow> None
         | Some (Inl e) \<Rightarrow> Some (Inl e)
         | Some (Inr (scope2, world2)) \<Rightarrow>
             Some (Inr (prompt\<lparr>p_variables := scope2,
                               p_followup := p_followup prompt @ followup fu,
                               p_every := Some (evs @ every fu)\<rparr>, world2)))) \<and>
   (getPrompt n ev i0 (p_variables prompt) w = Some (Inl err) \<longrightarrow>
      followup_step n ev convo i0 (prompt, w) =
        Some (Inl err)) \<and>
   (getPrompt n ev j variables w = Some (Inr (thing, variables1, w1)) \<and>
    \<not> is_blank (body thing) \<and>
    status_done (backend ev (net w1 @ [SendMessage (body thing) (attachments thing)])) = Inr a \<longrightarrow>
      runEveries_loop n ev True (j # js) variables w =
        runEveries_loop n ev True js (scope_set ''claude_response'' a variables1)
          (w1\<lparr>net := net w1 @ [SendMessage (body thing) (attachments thing)]\<rparr>)) \<and>
   (getPrompt n ev j0 variables w = Some (Inl err) \<longrightarrow>
      runEveries_loop n ev convo (j0 # js) variables w =
        Some (Inl err))"
proof (intro conjI)
  show "command \<in> set [''followup'', ''every''] \<longrightarrow>
      eval_node ev rec (Block command param var raw) (acc, variables, w) =
        Some (Inr (acc\<lparr>every := every acc @ (if command = ''every'' then [raw] else []),
                       followup := followup acc @ (if command = ''followup'' then [raw] else [])\<rparr>,
                   snd (finish_node var empty_result acc variables), w))"
    by (intro impI) (rule eval_node_deferred_block)
next
  show "command \<in> set [''followup'', ''every''] \<and>
    parse_value (Some s) = Inr (Some t) \<longrightarrow>
      eval_node ev rec (Command command (Some s) var) (acc, variables, w) =
        Some (Inr (acc\<lparr>every := every acc @
                           (if command = ''every'' then [simpleVarReplace variables t] else []),
                       followup := followup acc @
                           (if command = ''followup'' then [simpleVarReplace variables t] else [])\<rparr>,
                   snd (finish_node var empty_result acc variables), w))"
    by (intro impI) (elim conjE, rule eval_node_deferred_inline)
next
  show "getPrompt n ev i (p_variables prompt) w = Some (Inr (fu, variables1, w1)) \<and>
    p_every prompt = Some evs \<and>
    \<not> is_blank (body fu) \<and>
    status_done (backend ev (net w1 @ [SendMessage (body fu) (attachments fu)])) = Inr a \<longrightarrow>
      followup_step n ev True i (prompt, w) =
        (case runEveries_loop n ev True (evs @ every fu)
                (scope_set ''claude_response'' a variables1)
                (w1\<lparr>net := net w1 @ [SendMessage (body fu) (attachments fu)]\<rparr>) of
           None \<Rightarrow> None
         | Some (Inl e) \<Rightarrow> Some (Inl e)
         | Some (Inr (scope2, world2)) \<Rightarrow>
             Some (Inr (prompt\<lparr>p_variables := scope2,
                               p_followup := p_followup prompt @ followup fu,
                               p_every := Some (evs @ every fu)\<rparr>, world2)))"
    by (intro impI) (elim conjE, rule followup_step_sent)
next
  show "getPrompt n ev i0 (p_variables prompt) w = Some (Inl err) \<longrightarrow>
      followup_step n ev convo i0 (prompt, w) =
        Some (Inl err)"
    by (intro impI) (rule followup_step_error)
next
  show "getPrompt n ev j variables w = Some (Inr (thing, variables1, w1)) \<and>
    \<not> is_blank (body thing) \<and>
    status_done (backend ev (net w1 @ [SendMessage (body thing) (attachments thing)])) = Inr a \<longrightarrow>
      runEveries_loop n ev True (j # js) variables w =
        runEveries_loop n ev True js (scope_set ''claude_response'' a variables1)
          (w1\<lparr>net := net w1 @ [SendMessage (body thing) (attachments thing)]\<rparr>)"
    by (intro impI) (elim conjE, rule runEveries_loop_sent)
next
  show "getPrompt n ev j0 variables w = Some (Inl err) \<longrightarrow>
      runEveries_loop n ev convo (j0 # js) variables w =
        Some (Inl err)"
    by (intro impI) (rule runEveries_loop_error)
qed

theorem deferred_bodies_witness:
  "''followup'' \<in> set [''followup'', ''every''] \<and>
   eval_node demo_env (\<lambda>inner scope world. None) (Block ''followup'' None None ''{y}'') (empty_evaluation, [(''y'', JStr ''5'')], demo_world) =
     Some (Inr (\<lparr>body = [], attachments = [], followup = [''{y}''], every = []\<rparr>,
                [(''y'', JStr ''5''), (''response'', JStr []), (''result'', JStr [])], \<lparr>files = [], net = [], ready = True, rnd = 0\<rparr>)) \<and>
   ''followup'' \<in> set [''followup'', ''every''] \<and>
   parse_value (Some (CHR 0x22 # ''hi {y}'' @ [CHR 0x22])) = Inr (Some ''hi {y}'') \<and>
   eval_node demo_env (\<lambda>inner scope world. None) (Command ''followup'' (Some (CHR 0x22 # ''hi {y}'' @ [CHR 0x22])) None) (empty_evaluation, [(''y'', JStr ''5'')], demo_world) =
     Some (Inr (\<lparr>body = [], attachments = [], followup = [''hi 5''], every = []\<rparr>,
                [(''y'', JStr ''5''), (''response'', JStr []), (''result'', JStr [])], \<lparr>files = [], net = [], ready = True, rnd = 0\<rparr>)) \<and>
   getPrompt 1 demo_env ''{y}'' (p_variables demo_prompt) demo_world = Some (Inr (\<lparr>body = CHR 0x0A # ''5'' @ [CHR 0x0A], attachments = [], followup = [], every = []\<rparr>, [(''y'', JStr ''5''), (''response'', JStr []), (''result'', JStr [])], demo_world)) \<and>
   p_every demo_prompt = Some [] \<and>
   \<not> is_blank (body \<lparr>body = CHR 0x0A # ''5'' @ [CHR 0x0A], attachments = [], followup = [], every = []\<rparr>) \<and>
   status_done (backend demo_env (net demo_world @ [SendMessage (body \<lparr>body = CHR 0x0A # ''5'' @ [CHR 0x0A], attachments = [], followup = [], every = []\<rparr>) (attachments \<lparr>body = CHR 0x0A # ''5'' @ [CHR 0x0A], attachments = [], followup = [], every = []\<rparr>)])) = Inr (JObj [(''completion'', JStr ''ok'')]) \<and>
   followup_step 1 demo_env True ''{y}'' (demo_prompt, demo_world) =
     Some (Inr (\<lparr>p_variables = [(''y'', JStr ''5''), (''response'', JStr []), (''result'', JStr []),
                              (''claude_response'', JObj [(''completion'', JStr ''ok'')])],
               p_body = ''x'', p_followup = [''{y}''], p_attachments = [], p_every = Some [],
               p_dontRespond = False, p_conversation = None\<rparr>,
             \<lparr>files = [], net = [SendMessage (CHR 0x0A # ''5'' @ [CHR 0x0A]) []], ready = True,
              rnd = 0\<rparr>)) \<and>
   getPrompt 1 demo_env (''{#import '' @ [CHR 0x22] @ ''f'' @ [CHR 0x22] @ ''/}'') (p_variables demo_prompt) demo_world = Some (Inl TypeError) \<and>
   followup_step 1 demo_env True (''{#import '' @ [CHR 0x22] @ ''f'' @ [CHR 0x22] @ ''/}'') (demo_prompt, demo_world) =
     Some (Inl TypeError) \<and>
   getPrompt 1 demo_env ''{y}'' [(''y'', JStr ''5'')] demo_world = Some (Inr (\<lparr>body = CHR 0x0A # ''5'' @ [CHR 0x0A], attachments = [], followup = [], every = []\<rparr>, [(''y'', JStr ''5''), (''response'', JStr []), (''result'', JStr [])], demo_world)) \<and>
   \<not> is_blank (body \<lparr>body = CHR 0x0A # ''5'' @ [CHR 0x0A], attachments = [], followup = [], every = []\<rparr>) \<and>
   status_done (backend demo_env (net demo_world @ [SendMessage (body \<lparr>body = CHR 0x0A # ''5'' @ [CHR 0x0A], attachments = [], followup = [], every = []\<rparr>) (attachments \<lparr>body = CHR 0x0A # ''5'' @ [CHR 0x0A], attachments = [], followup = [], every = []\<rparr>)])) = Inr (JObj [(''completion'', JStr ''ok'')]) \<and>
   runEveries_loop 1 demo_env True (''{y}'' # [''e'']) [(''y'', JStr ''5'')] demo_world =
     Some (Inr ([(''y'', JStr ''5''), (''response'', JStr []), (''result'', JStr []),
                 (''claude_response'', JObj [(''completion'', JStr ''ok'')])],
                \<lparr>files = [],
                 net = [SendMessage (CHR 0x0A # ''5'' @ [CHR 0x0A]) [], SendMessage ''e'' []],
                 ready = True, rnd = 0\<rparr>)) \<and>
   getPrompt 1 demo_env (''{#import '' @ [CHR 0x22] @ ''f'' @ [CHR 0x22] @ ''/}'') [(''y'', JStr ''5'')] demo_world = Some (Inl TypeError) \<and>
   runEveries_loop 1 demo_env True ((''{#import '' @ [CHR 0x22] @ ''f'' @ [CHR 0x22] @ ''/}'') # [''e'']) [(''y'', JStr ''5'')] demo_world =
     Some (Inl TypeError)"
proof -
  note t = deferred_bodies_wait_for_the_drain
      [where command = "''followup''"
       and ev = "demo_env"
       and rec = "(\<lambda>inner scope world. None)"
       and param = "None"
       and var = "None"
       and raw = "''{y}''"
       and acc = "empty_evaluation"
       and variables = "[(''y'', JStr ''5'')]"
       and w = "demo_world"
       and s = "(CHR 0x22 # ''hi {y}'' @ [CHR 0x22])"
       and t = "''hi {y}''"
       and n = "1"
       and i = "''{y}''"
       and prompt = "demo_prompt"
       and fu = "\<lparr>body = CHR 0x0A # ''5'' @ [CHR 0x0A], attachments = [], followup = [], every = []\<rparr>"
       and ?variables1.0 = "[(''y'', JStr ''5''), (''response'', JStr []), (''result'', JStr [])]"
       and ?w1.0 = "demo_world"
       and evs = "[]"
       and a = "(JObj [(''completion'', JStr ''ok'')])"
       and ?i0.0 = "(''{#import '' @ [CHR 0x22] @ ''f'' @ [CHR 0x22] @ ''/}'')"
       and err = "TypeError"
       and convo = "True"
       and j = "''{y}''"
       and js = "[''e'']"
       and thing = "\<lparr>body = CHR 0x0A # ''5'' @ [CHR 0x0A], attachments = [], followup = [], every = []\<rparr>"
       and ?j0.0 = "(''{#import '' @ [CHR 0x22] @ ''f'' @ [CHR 0x22] @ ''/}'')"]
  have h0: "''followup'' \<in> set [''followup'', ''every'']"
    by code_simp
  have e0: "(Some (Inr (empty_evaluation\<lparr>every := every empty_evaluation @ (if ''followup'' = ''every'' then [''{y}''] else []),
                       followup := followup empty_evaluation @ (if ''followup'' = ''followup'' then [''{y}''] else [])\<rparr>,
                   snd (finish_node None empty_result empty_evaluation [(''y'', JStr ''5'')]), demo_world)) :: eval_state outcome) =
     Some (Inr (\<lparr>body = [], attachments = [], followup = [''{y}''], every = []\<rparr>,
                [(''y'', JStr ''5''), (''response'', JStr []), (''result'', JStr [])], \<lparr>files = [], net = [], ready = True, rnd = 0\<rparr>))"
    by code_simp
  note c0 = trans [OF t [THEN conjunct1, THEN mp, OF h0] e0]
  have h1: "''followup'' \<in> set [''followup'', ''every''] \<and>
   parse_value (Some (CHR 0x22 # ''hi {y}'' @ [CHR 0x22])) = Inr (Some ''hi {y}'')"
    by (intro conjI) code_simp+
  have e1: "(Some (Inr (empty_evaluation\<lparr>every := every empty_evaluation @
                           (if ''followup'' = ''every'' then [simpleVarReplace [(''y'', JStr ''5'')] ''hi {y}''] else []),
                       followup := followup empty_evaluation @
                           (if ''followup'' = ''followup'' then [simpleVarReplace [(''y'', JStr ''5'')] ''hi {y}''] else [])\<rparr>,
                   snd (finish_node None empty_result empty_evaluation [(''y'', JStr ''5'')]), demo_world)) :: eval_state outcome) =
     Some (Inr (\<lparr>body = [], attachments = [], followup = [''hi 5''], every = []\<rparr>,
                [(''y'', JStr ''5''), (''response'', JStr []), (''result'', JStr [])], \<lparr>files = [], net = [], ready = True, rnd = 0\<rparr>))"
    by code_simp
  note c1 = trans [OF t [THEN conjunct2, THEN conjunct1, THEN mp, OF h1] e1]
  have h2: "getPrompt 1 demo_env ''{y}'' (p_variables demo_prompt) demo_world = Some (Inr (\<lparr>body = CHR 0x0A # ''5'' @ [CHR 0x0A], attachments = [], followup = [], every = []\<rparr>, [(''y'', JStr ''5''), (''response'', JStr []), (''result'', JStr [])], demo_world)) \<and>
   p_every demo_prompt = Some [] \<and>
   \<not> is_blank (body \<lparr>body = CHR 0x0A # ''5'' @ [CHR 0x0A], attachments = [], followup = [], every = []\<rparr>) \<and>
   status_done (backend demo_env (net demo_world @ [SendMessage (body \<lparr>body = CHR 0x0A # ''5'' @ [CHR 0x0A], attachments = [], followup = [], every = []\<rparr>) (attachments \<lparr>body = CHR 0x0A # ''5'' @ [CHR 0x0A], attachments = [], followup = [], every = []\<rparr>)])) = Inr (JObj [(''completion'', JStr ''ok'')])"
    by (intro conjI) code_simp+
  have e2: "(case runEveries_loop 1 demo_env True ([] @ every \<lparr>body = CHR 0x0A # ''5'' @ [CHR 0x0A], attachments = [], followup = [], every = []\<rparr>)
                (scope_set ''claude_response'' (JObj [(''completion'', JStr ''ok'')]) [(''y'', JStr ''5''), (''response'', JStr []), (''result'', JStr [])])
                (demo_world\<lparr>net := net demo_world @ [SendMessage (body \<lparr>body = CHR 0x0A # ''5'' @ [CHR 0x0A], attachments = [], followup = [], every = []\<rparr>) (attachments \<lparr>body = CHR 0x0A # ''5'' @ [CHR 0x0A], attachments = [], followup = [], every = []\<rparr>)]\<rparr>) of
           None \<Rightarrow> None
         | Some (Inl e) \<Rightarrow> Some (Inl e)
         | Some (Inr (scope2, world2)) \<Rightarrow>
             Some (Inr (demo_prompt\<lparr>p_variables := scope2,
                               p_followup := p_followup demo_prompt @ followup \<lparr>body = CHR 0x0A # ''5'' @ [CHR 0x0A], attachments = [], followup = [], every = []\<rparr>,
                               p_every := Some ([] @ every \<lparr>body = CHR 0x0A # ''5'' @ [CHR 0x0A], attachments = [], followup = [], every = []\<rparr>)\<rparr>, world2))) =
     Some (Inr (\<lparr>p_variables = [(''y'', JStr ''5''), (''response'', JStr []), (''result'', JStr []),
                              (''claude_response'', JObj [(''completion'', JStr ''ok'')])],
               p_body = ''x'', p_followup = [''{y}''], p_attachments = [], p_every = Some [],
               p_dontRespond = False, p_conversation = None\<rparr>,
             \<lparr>files = [], net = [SendMessage (CHR 0x0A # ''5'' @ [CHR 0x0A]) []], ready = True,
              rnd = 0\<rparr>))"
    by code_simp
  note c2 = trans [OF t [THEN conjunct2, THEN conjunct2, THEN conjunct1, THEN mp, OF h2] e2]
  have h3: "getPrompt 1 demo_env (''{#import '' @ [CHR 0x22] @ ''f'' @ [CHR 0x22] @ ''/}'') (p_variables demo_prompt) demo_world = Some (Inl TypeError)"
    by code_simp
  note c3 = t [THEN conjunct2, THEN conjunct2, THEN conjunct2, THEN conjunct1, THEN mp, OF h3]
  have h4: "getPrompt 1 demo_env ''{y}'' [(''y'', JStr ''5'')] demo_world = Some (Inr (\<lparr>body = CHR 0x0A # ''5'' @ [CHR 0x0A], attachments = [], followup = [], every = []\<rparr>, [(''y'', JStr ''5''), (''response'', JStr []), (''result'', JStr [])], demo_world)) \<and>
   \<not> is_blank (body \<lparr>body = CHR 0x0A # ''5'' @ [CHR 0x0A], attachments = [], followup = [], every = []\<rparr>) \<and>
   status_done (backend demo_env (net demo_world @ [SendMessage (body \<lparr>body = CHR 0x0A # ''5'' @ [CHR 0x0A], attachments = [], followup = [], every = []\<rparr>) (attachments \<lparr>body = CHR 0x0A # ''5'' @ [CHR 0x0A], attachments = [], followup = [], every = []\<rparr>)])) = Inr (JObj [(''completion'', JStr ''ok'')])"
    by (intro conjI) code_simp+
  have e4: "runEveries_loop 1 demo_env True [''e''] (scope_set ''claude_response'' (JObj [(''completion'', JStr ''ok'')]) [(''y'', JStr ''5''), (''response'', JStr []), (''result'', JStr [])])
          (demo_world\<lparr>net := net demo_world @ [SendMessage (body \<lparr>body = CHR 0x0A # ''5'' @ [CHR 0x0A], attachments = [], followup = [], every = []\<rparr>) (attachments \<lparr>body = CHR 0x0A # ''5'' @ [CHR 0x0A], attachments = [], followup = [], every = []\<rparr>)]\<rparr>) =
     Some (Inr ([(''y'', JStr ''5''), (''response'', JStr []), (''result'', JStr []),
                 (''claude_response'', JObj [(''completion'', JStr ''ok'')])],
                \<lparr>files = [],
                 net = [SendMessage (CHR 0x0A # ''5'' @ [CHR 0x0A]) [], SendMessage ''e'' []],
                 ready = True, rnd = 0\<rparr>))"
    by code_simp
  note c4 = trans [OF t [THEN conjunct2, THEN conjunct2, THEN conjunct2, THEN conjunct2, THEN conjunct1, THEN mp, OF h4] e4]
  have h5: "getPrompt 1 demo_env (''{#import '' @ [CHR 0x22] @ ''f'' @ [CHR 0x22] @ ''/}'') [(''y'', JStr ''5'')] demo_world = Some (Inl TypeError)"
    by code_simp
  note c5 = t [THEN conjunct2, THEN conjunct2, THEN conjunct2, THEN conjunct2, THEN conjunct2, THEN mp, OF h5]
  show ?thesis
    using h0 c0 h1 c1 h2 c2 h3 c3 h4 c4 h5 c5 by blast
qed

subsection \<open>Bound variables\<close>

lemma finish_node_body:
  "body (fst (finish_node var result acc sc)) =
     body acc @ to_string (case r_body result of None \<Rightarrow> JStr [] | Some b \<Rightarrow> b)"
  by (simp add: finish_node_def Let_def)

lemma finish_node_bound:
  assumes "v \<noteq> []" and "v \<noteq> ''__proto__''"
  shows "scope_get (snd (finish_node (Some v) result acc sc)) v =
     (case r_variables result of
        Some (Fresh ps) \<Rightarrow>
          (case map_of (rev ps) ''response'' of
             Some x \<Rightarrow> x
           | None \<Rightarrow> js_or (case r_value result of None \<Rightarrow> JUndefined | Some x \<Rightarrow> x)
                          (case r_body result of None \<Rightarrow> JStr [] | Some b \<Rightarrow> b))
      | _ \<Rightarrow> js_or (case r_value result of None \<Rightarrow> JUndefined | Some x \<Rightarrow> x)
                  (case r_body result of None \<Rightarrow> JStr [] | Some b \<Rightarrow> b))"
  using assms
  by (simp add: finish_node_def Let_def scope_get_object_assign
      split: option.splits varsref.splits)

lemma runCommand_inline_variables:
  assumes "runCommand ev command variables arg None w = Inr (result, w')"
    and "r_variables result = Some (Fresh ps)"
  shows "map_of (rev ps) ''response'' = None"
  using assms
  by (auto simp: runCommand_def empty_result_def callClaude_def
      split: if_splits sum.splits prod.splits option.splits)

lemma eval_node_block_bound:
  assumes "command \<notin> set [''followup'', ''every'']" and "v \<noteq> ''__proto__''"
    and "rec inner variables w = Some (Inr (nested, variables1, w1))"
    and "runCommand ev command variables1 (body nested) param w1 = Inr (result, w2)"
  shows "eval_node ev rec (Block command param (Some v) inner) (acc, variables, w) =
     Some (Inr (fst (finish_node (Some v) result
                       (acc\<lparr>attachments := attachments acc @ attachments nested,
                            followup := followup acc @ followup nested\<rparr>) variables1),
                snd (finish_node (Some v) result
                       (acc\<lparr>attachments := attachments acc @ attachments nested,
                            followup := followup acc @ followup nested\<rparr>) variables1), w2))"
proof -
  have "command \<noteq> ''followup''" and "command \<noteq> ''every''"
    using assms(1) by simp_all
  then show ?thesis
    using assms(2-4)
    by (simp add: eval_node_def finish_checked_other split: prod.splits)
qed

lemma eval_node_deferred_bound:
  assumes "command \<in> set [''followup'', ''every'']"
  shows "eval_node ev rec (Block command param (Some v) inner) (acc, variables, w) =
     Some (Inr (fst (finish_node (Some v)
                       (if command = ''every'' then empty_result\<lparr>r_every := Some [inner]\<rparr>
                        else empty_result\<lparr>r_followup := Some [inner]\<rparr>) acc variables),
                snd (finish_node (Some v)
                       (if command = ''every'' then empty_result\<lparr>r_every := Some [inner]\<rparr>
                        else empty_result\<lparr>r_followup := Some [inner]\<rparr>) acc variables), w))"
proof -
  have "command = ''followup'' \<or> command = ''every''"
    using assms by simp
  then show ?thesis
    by (elim disjE)
       (simp_all add: eval_node_def runCommand_followup runCommand_every finish_checked_def
        replaces_prototype_def finish_node_def js_or_def Let_def empty_result_def
        split: option.splits)
qed

lemma eval_node_inline_bound:
  assumes "command \<noteq> ''import''" and "v \<noteq> []" and "v \<noteq> ''__proto__''"
    and "parse_value val = Inr (Some t)"
    and "runCommand ev command variables (simpleVarReplace variables t) None w = Inr (result, w2)"
  shows "eval_node ev rec (Command command val (Some v)) (acc, variables, w) =
     Some (Inr (fst (finish_node (Some v) (result\<lparr>r_body := Some (JStr [])\<rparr>) acc variables),
                snd (finish_node (Some v) (result\<lparr>r_body := Some (JStr [])\<rparr>) acc variables), w2))"
  using assms
  by (simp add: eval_node_def finish_checked_other truthy_str_def split: prod.splits)

text \<open>
  A bound variable named \<^verbatim>\<open>__proto__\<close> is not bound: the assignment of a string to
  \<^verbatim>\<open>variables['__proto__']\<close> changes nothing.
\<close>

lemma binding_of_proto_is_dropped:
  "getPrompt 2 demo_env ''{#foo __proto__=p}b{/foo}'' [] demo_world =
     Some (Inr (\<lparr>body = [CHR 0x0A] @ ''foo(b)'' @ [CHR 0x0A], attachments = [], followup = [],
                 every = []\<rparr>,
                [(''response'', JStr ''foo(b)''), (''result'', JStr ''foo(b)'')], demo_world))"
  by code_simp

text \<open>
  Claim C5, as amended. Let \<open>v\<close> be a bound variable name other than \<^verbatim>\<open>__proto__\<close>. A block
  with the bound variable \<open>v\<close> whose command is not deferred, on a body that evaluates to
  \<open>nested\<close> and a command that returns \<open>result\<close>, leaves in \<open>v\<close> the result of the command:
  its value if that is truthy and else its body (or what the command has returned under
  the name \<open>response\<close> among its variables, which for the commands of the table is that
  value); and it adds the body of the result to the text, as a block without a bound
  variable does (first part). A deferred block with the bound variable \<open>v\<close>, whose result
  has neither value nor body, leaves the empty string in \<open>v\<close> and adds no text (second
  part). An inline command other than \<open>import\<close> with the bound variable \<open>v\<close> whose command
  returns a truthy value leaves that value in \<open>v\<close>, and adds no text (third part).
\<close>

theorem bound_variable_holds_the_result:
  "(command \<notin> set [''followup'', ''every''] \<and> v \<noteq> [] \<and> v \<noteq> ''__proto__'' \<and>
    rec inner variables w = Some (Inr (nested, variables1, w1)) \<and>
    runCommand ev command variables1 (body nested) param w1 = Inr (result, w2) \<longrightarrow>
      (\<exists>acc' variables'.
         eval_node ev rec (Block command param (Some v) inner) (acc, variables, w) =
           Some (Inr (acc', variables', w2)) \<and>
         scope_get variables' v =
           (case r_variables result of
              Some (Fresh ps) \<Rightarrow>
                (case map_of (rev ps) ''response'' of
                   Some x \<Rightarrow> x
                 | None \<Rightarrow> js_or (case r_value result of None \<Rightarrow> JUndefined | Some x \<Rightarrow> x)
                                (case r_body result of None \<Rightarrow> JStr [] | Some b \<Rightarrow> b))
            | _ \<Rightarrow> js_or (case r_value result of None \<Rightarrow> JUndefined | Some x \<Rightarrow> x)
                        (case r_body result of None \<Rightarrow> JStr [] | Some b \<Rightarrow> b)) \<and>
         body acc' =
           body acc @ to_string (case r_body result of None \<Rightarrow> JStr [] | Some b \<Rightarrow> b))) \<and>
   (command0 \<in> set [''followup'', ''every''] \<and> v \<noteq> [] \<and> v \<noteq> ''__proto__'' \<longrightarrow>
      (\<exists>acc' variables'.
         eval_node ev rec (Block command0 param0 (Some v) inner0) (acc, variables, w) =
           Some (Inr (acc', variables', w)) \<and>
         scope_get variables' v = JStr [] \<and>
         body acc' = body acc)) \<and>
   (command1 \<noteq> ''import'' \<and> v \<noteq> [] \<and> v \<noteq> ''__proto__'' \<and>
    parse_value val = Inr (Some t) \<and>
    runCommand ev command1 variables (simpleVarReplace variables t) None w = Inr (result1, w3) \<and>
    r_value result1 = Some x1 \<and> truthy x1 \<longrightarrow>
      (\<exists>acc' variables'.
         eval_node ev rec (Command command1 val (Some v)) (acc, variables, w) =
           Some (Inr (acc', variables', w3)) \<and>
         scope_get variables' v = x1 \<and>
         body acc' = body acc))"
proof (intro conjI impI)
  assume h: "command \<notin> set [''followup'', ''every''] \<and> v \<noteq> [] \<and> v \<noteq> ''__proto__'' \<and>
    rec inner variables w = Some (Inr (nested, variables1, w1)) \<and>
    runCommand ev command variables1 (body nested) param w1 = Inr (result, w2)"
  define acc1 where "acc1 = acc\<lparr>attachments := attachments acc @ attachments nested,
                            followup := followup acc @ followup nested\<rparr>"
  have "eval_node ev rec (Block command param (Some v) inner) (acc, variables, w) =
     Some (Inr (fst (finish_node (Some v) result acc1 variables1),
                snd (finish_node (Some v) result acc1 variables1), w2))"
    unfolding acc1_def using h by (intro eval_node_block_bound [where ?w1.0 = w1]) simp_all
  moreover have "body (fst (finish_node (Some v) result acc1 variables1)) =
      body acc @ to_string (case r_body result of None \<Rightarrow> JStr [] | Some b \<Rightarrow> b)"
    by (simp add: finish_node_body acc1_def)
  ultimately show "\<exists>acc' variables'.
         eval_node ev rec (Block command param (Some v) inner) (acc, variables, w) =
           Some (Inr (acc', variables', w2)) \<and>
         scope_get variables' v =
           (case r_variables result of
              Some (Fresh ps) \<Rightarrow>
                (case map_of (rev ps) ''response'' of
                   Some x \<Rightarrow> x
                 | None \<Rightarrow> js_or (case r_value result of None \<Rightarrow> JUndefined | Some x \<Rightarrow> x)
                                (case r_body result of None \<Rightarrow> JStr [] | Some b \<Rightarrow> b))
            | _ \<Rightarrow> js_or (case r_value result of None \<Rightarrow> JUndefined | Some x \<Rightarrow> x)
                        (case r_body result of None \<Rightarrow> JStr [] | Some b \<Rightarrow> b)) \<and>
         body acc' =
           body acc @ to_string (case r_body result of None \<Rightarrow> JStr [] | Some b \<Rightarrow> b)"
    using h finish_node_bound [of v result acc1 variables1] by blast
next
  assume h: "command0 \<in> set [''followup'', ''every''] \<and> v \<noteq> [] \<and> v \<noteq> ''__proto__''"
  define result0 where "result0 =
    (if command0 = ''every'' then empty_result\<lparr>r_every := Some [inner0]\<rparr>
     else empty_result\<lparr>r_followup := Some [inner0]\<rparr>)"
  have "eval_node ev rec (Block command0 param0 (Some v) inner0) (acc, variables, w) =
     Some (Inr (fst (finish_node (Some v) result0 acc variables),
                snd (finish_node (Some v) result0 acc variables), w))"
    unfolding result0_def using h by (intro eval_node_deferred_bound) simp
  moreover have "body (fst (finish_node (Some v) result0 acc variables)) = body acc"
    by (simp add: finish_node_body result0_def empty_result_def)
  moreover have "scope_get (snd (finish_node (Some v) result0 acc variables)) v = JStr []"
    using h finish_node_bound [of v result0 acc variables]
    by (simp add: result0_def empty_result_def js_or_def)
  ultimately show "\<exists>acc' variables'.
         eval_node ev rec (Block command0 param0 (Some v) inner0) (acc, variables, w) =
           Some (Inr (acc', variables', w)) \<and>
         scope_get variables' v = JStr [] \<and>
         body acc' = body acc"
    by blast
next
  assume h: "command1 \<noteq> ''import'' \<and> v \<noteq> [] \<and> v \<noteq> ''__proto__'' \<and>
    parse_value val = Inr (Some t) \<and>
    runCommand ev command1 variables (simpleVarReplace variables t) None w = Inr (result1, w3) \<and>
    r_value result1 = Some x1 \<and> truthy x1"
  define result2 where "result2 = result1\<lparr>r_body := Some (JStr [])\<rparr>"
  have "eval_node ev rec (Command command1 val (Some v)) (acc, variables, w) =
     Some (Inr (fst (finish_node (Some v) result2 acc variables),
                snd (finish_node (Some v) result2 acc variables), w3))"
    unfolding result2_def using h by (intro eval_node_inline_bound [where t = t]) simp_all
  moreover have "body (fst (finish_node (Some v) result2 acc variables)) = body acc"
    by (simp add: finish_node_body result2_def)
  moreover have "scope_get (snd (finish_node (Some v) result2 acc variables)) v = x1"
  proof (cases "r_variables result1")
    case None
    then show ?thesis
      using h finish_node_bound [of v result2 acc variables]
      by (simp add: result2_def js_or_def)
  next
    case (Some r)
    show ?thesis
    proof (cases r)
      case SameScope
      with Some show ?thesis
        using h finish_node_bound [of v result2 acc variables]
        by (simp add: result2_def js_or_def)
    next
      case (Fresh ps)
      with Some have "map_of (rev ps) ''response'' = None"
        using h runCommand_inline_variables by blast
      with Some Fresh show ?thesis
        using h finish_node_bound [of v result2 acc variables]
        by (simp add: result2_def js_or_def)
    qed
  qed
  ultimately show "\<exists>acc' variables'.
         eval_node ev rec (Command command1 val (Some v)) (acc, variables, w) =
           Some (Inr (acc', variables', w3)) \<and>
         scope_get variables' v = x1 \<and>
         body acc' = body acc"
    by blast
qed
theorem bound_variable_witness:
  "''claude'' \<notin> set [''followup'', ''every''] \<and>
   ''x'' \<noteq> [] \<and>
   ''x'' \<noteq> ''__proto__'' \<and>
   (getPrompt 1 demo_env) ''b'' [] demo_world = Some (Inr (\<lparr>body = ''b'', attachments = [], followup = [], every = []\<rparr>, [], demo_world)) \<and>
   runCommand demo_env ''claude'' [] (body \<lparr>body = ''b'', attachments = [], followup = [], every = []\<rparr>) None demo_world = Inr (\<lparr>r_body = Some (JStr ''ok''), r_value = None, r_variables = Some (Fresh [(''claude_response'', JObj [(''completion'', JStr ''ok'')])]), r_attachments = None, r_every = None, r_followup = None\<rparr>, \<lparr>files = [], net = [CallClaude ''b''], ready = True, rnd = 0\<rparr>) \<and>
   (\<exists>acc' variables'.
      eval_node demo_env (getPrompt 1 demo_env) (Block ''claude'' None (Some ''x'') ''b'') (empty_evaluation, [], demo_world) =
        Some (Inr (acc', variables', \<lparr>files = [], net = [CallClaude ''b''], ready = True, rnd = 0\<rparr>)) \<and>
      scope_get variables' ''x'' = JStr ''ok'' \<and>
      body acc' = ''ok'') \<and>
   ''followup'' \<in> set [''followup'', ''every''] \<and>
   ''x'' \<noteq> [] \<and>
   ''x'' \<noteq> ''__proto__'' \<and>
   (\<exists>acc' variables'.
      eval_node demo_env (getPrompt 1 demo_env) (Block ''followup'' None (Some ''x'') ''b'') (empty_evaluation, [], demo_world) =
        Some (Inr (acc', variables', demo_world)) \<and>
      scope_get variables' ''x'' = JStr [] \<and>
      body acc' = body empty_evaluation) \<and>
   ''file'' \<noteq> ''import'' \<and>
   ''x'' \<noteq> [] \<and>
   ''x'' \<noteq> ''__proto__'' \<and>
   parse_value (Some (CHR 0x22 # ''a'' @ [CHR 0x22])) = Inr (Some ''a'') \<and>
   runCommand demo_env ''file'' [] (simpleVarReplace [] ''a'') None demo_world = Inr (\<lparr>r_body = Some (JStr []), r_value = Some (JStr ''a''), r_variables = None, r_attachments = Some [\<lparr>file_name = ''file-abcdef.txt'', file_type = ''text/plain'', file_size = 1, extracted_content = ''a''\<rparr>], r_every = None, r_followup = None\<rparr>, \<lparr>files = [], net = [], ready = True, rnd = 1\<rparr>) \<and>
   r_value \<lparr>r_body = Some (JStr []), r_value = Some (JStr ''a''), r_variables = None, r_attachments = Some [\<lparr>file_name = ''file-abcdef.txt'', file_type = ''text/plain'', file_size = 1, extracted_content = ''a''\<rparr>], r_every = None, r_followup = None\<rparr> = Some (JStr ''a'') \<and>
   truthy (JStr ''a'') \<and>
   (\<exists>acc' variables'.
      eval_node demo_env (getPrompt 1 demo_env) (Command ''file'' (Some (CHR 0x22 # ''a'' @ [CHR 0x22])) (Some ''x'')) (empty_evaluation, [], demo_world) =
        Some (Inr (acc', variables', \<lparr>files = [], net = [], ready = True, rnd = 1\<rparr>)) \<and>
      scope_get variables' ''x'' = (JStr ''a'') \<and>
      body acc' = body empty_evaluation)"
proof -
  note t = bound_variable_holds_the_result
    [where command = "''claude''"
       and v = "''x''"
       and rec = "(getPrompt 1 demo_env)"
       and inner = "''b''"
       and variables = "[]"
       and w = "demo_world"
       and acc = "empty_evaluation"
       and ev = "demo_env"
       and nested = "\<lparr>body = ''b'', attachments = [], followup = [], every = []\<rparr>"
       and ?variables1.0 = "[]"
       and ?w1.0 = "demo_world"
       and param = "None"
       and result = "\<lparr>r_body = Some (JStr ''ok''), r_value = None, r_variables = Some (Fresh [(''claude_response'', JObj [(''completion'', JStr ''ok'')])]), r_attachments = None, r_every = None, r_followup = None\<rparr>"
       and ?w2.0 = "\<lparr>files = [], net = [CallClaude ''b''], ready = True, rnd = 0\<rparr>"
       and ?command0.0 = "''followup''"
       and ?param0.0 = "None"
       and ?inner0.0 = "''b''"
       and ?command1.0 = "''file''"
       and val = "(Some (CHR 0x22 # ''a'' @ [CHR 0x22]))"
       and t = "''a''"
       and ?result1.0 = "\<lparr>r_body = Some (JStr []), r_value = Some (JStr ''a''), r_variables = None, r_attachments = Some [\<lparr>file_name = ''file-abcdef.txt'', file_type = ''text/plain'', file_size = 1, extracted_content = ''a''\<rparr>], r_every = None, r_followup = None\<rparr>"
       and ?w3.0 = "\<lparr>files = [], net = [], ready = True, rnd = 1\<rparr>"
       and ?x1.0 = "(JStr ''a'')"]
  have h0: "''claude'' \<notin> set [''followup'', ''every''] \<and>
   ''x'' \<noteq> [] \<and>
   ''x'' \<noteq> ''__proto__'' \<and>
   (getPrompt 1 demo_env) ''b'' [] demo_world = Some (Inr (\<lparr>body = ''b'', attachments = [], followup = [], every = []\<rparr>, [], demo_world)) \<and>
   runCommand demo_env ''claude'' [] (body \<lparr>body = ''b'', attachments = [], followup = [], every = []\<rparr>) None demo_world = Inr (\<lparr>r_body = Some (JStr ''ok''), r_value = None, r_variables = Some (Fresh [(''claude_response'', JObj [(''completion'', JStr ''ok'')])]), r_attachments = None, r_every = None, r_followup = None\<rparr>, \<lparr>files = [], net = [CallClaude ''b''], ready = True, rnd = 0\<rparr>)"
    by (intro conjI) code_simp+
  have e0: "(case r_variables \<lparr>r_body = Some (JStr ''ok''), r_value = None, r_variables = Some (Fresh [(''claude_response'', JObj [(''completion'', JStr ''ok'')])]), r_attachments = None, r_every = None, r_followup = None\<rparr> of
              Some (Fresh ps) \<Rightarrow>
                (case map_of (rev ps) ''response'' of
                   Some x \<Rightarrow> x
                 | None \<Rightarrow> js_or (case r_value \<lparr>r_body = Some (JStr ''ok''), r_value = None, r_variables = Some (Fresh [(''claude_response'', JObj [(''completion'', JStr ''ok'')])]), r_attachments = None, r_every = None, r_followup = None\<rparr> of None \<Rightarrow> JUndefined | Some x \<Rightarrow> x)
                                (case r_body \<lparr>r_body = Some (JStr ''ok''), r_value = None, r_variables = Some (Fresh [(''claude_response'', JObj [(''completion'', JStr ''ok'')])]), r_attachments = None, r_every = None, r_followup = None\<rparr> of None \<Rightarrow> JStr [] | Some b \<Rightarrow> b))
            | _ \<Rightarrow> js_or (case r_value \<lparr>r_body = Some (JStr ''ok''), r_value = None, r_variables = Some (Fresh [(''claude_response'', JObj [(''completion'', JStr ''ok'')])]), r_attachments = None, r_every = None, r_followup = None\<rparr> of None \<Rightarrow> JUndefined | Some x \<Rightarrow> x)
                        (case r_body \<lparr>r_body = Some (JStr ''ok''), r_value = None, r_variables = Some (Fresh [(''claude_response'', JObj [(''completion'', JStr ''ok'')])]), r_attachments = None, r_every = None, r_followup = None\<rparr> of None \<Rightarrow> JStr [] | Some b \<Rightarrow> b)) = JStr ''ok''"
    by code_simp
  have f0: "body empty_evaluation @ to_string (case r_body \<lparr>r_body = Some (JStr ''ok''), r_value = None, r_variables = Some (Fresh [(''claude_response'', JObj [(''completion'', JStr ''ok'')])]), r_attachments = None, r_every = None, r_followup = None\<rparr> of None \<Rightarrow> JStr [] | Some b \<Rightarrow> b) = ''ok''"
    by code_simp
  note c0 = t [THEN conjunct1, THEN mp, OF h0, unfolded e0 f0]
  have h1: "''followup'' \<in> set [''followup'', ''every''] \<and>
   ''x'' \<noteq> [] \<and>
   ''x'' \<noteq> ''__proto__''"
    by (intro conjI) code_simp+
  note c1 = t [THEN conjunct2, THEN conjunct1, THEN mp, OF h1]
  have h2: "''file'' \<noteq> ''import'' \<and>
   ''x'' \<noteq> [] \<and>
   ''x'' \<noteq> ''__proto__'' \<and>
   parse_value (Some (CHR 0x22 # ''a'' @ [CHR 0x22])) = Inr (Some ''a'') \<and>
   runCommand demo_env ''file'' [] (simpleVarReplace [] ''a'') None demo_world = Inr (\<lparr>r_body = Some (JStr []), r_value = Some (JStr ''a''), r_variables = None, r_attachments = Some [\<lparr>file_name = ''file-abcdef.txt'', file_type = ''text/plain'', file_size = 1, extracted_content = ''a''\<rparr>], r_every = None, r_followup = None\<rparr>, \<lparr>files = [], net = [], ready = True, rnd = 1\<rparr>) \<and>
   r_value \<lparr>r_body = Some (JStr []), r_value = Some (JStr ''a''), r_variables = None, r_attachments = Some [\<lparr>file_name = ''file-abcdef.txt'', file_type = ''text/plain'', file_size = 1, extracted_content = ''a''\<rparr>], r_every = None, r_followup = None\<rparr> = Some (JStr ''a'') \<and>
   truthy (JStr ''a'')"
    by (intro conjI) code_simp+
  note c2 = t [THEN conjunct2, THEN conjunct2, THEN mp, OF h2]
  show ?thesis
    using h0 c0 h1 c1 h2 c2 by blast
qed

end
